theory Spec2Isabelle
  imports Main
begin

section \<open>Values, errors and the collaborators of the metrics bootstrap\<close>

text \<open>
  The program is the module \<^verbatim>\<open>src/unnamed/part_000\<close>: an asynchronous function
  \<^verbatim>\<open>initMetrics\<close> that assembles the resource attributes of the process and creates two
  counters, a timer callback \<^verbatim>\<open>backgroundTask\<close> and an HTTP handler
  \<^verbatim>\<open>handleHttpReq\<close>. The detector, the resource class, the exporter, the reader, the
  meter provider and the counters belong to packages outside the repository; each call into
  them is a field of \<open>world\<close> that says how that call ends in the run at hand.
\<close>

text \<open>
  An attribute value: a string or a boolean. The function id and the other attributes the
  claims speak of are strings. Numbers and arrays, which a resource may also hold, are
  outside the model: how JavaScript prints a number (the shortest digits that read back as
  the same double, with an exponent from \<open>10^21\<close> on) is not modelled, so no statement
  below speaks about a numeric attribute.
\<close>

datatype attr_value = StrV string | BoolV bool

type_synonym attributes = "string \<rightharpoonup> attr_value"

text \<open>
  \<^verbatim>\<open>value.toString()\<close> of an attribute value: a string is itself, a boolean is
  \<^verbatim>\<open>true\<close> or \<^verbatim>\<open>false\<close>.
\<close>

fun toString :: "attr_value \<Rightarrow> string" where
  "toString (StrV s) = s"
| "toString (BoolV b) = (if b then ''true'' else ''false'')"

text \<open>An exception: a TypeError of the language, or whatever a collaborator throws.\<close>

datatype error = TypeError string | Thrown string

text \<open>How an awaited promise ends: it resolves, it rejects, or it never settles.\<close>

datatype settle = Resolves | Rejects error | Never

text \<open>
  Modelled from the spec: the \<^verbatim>\<open>Resource\<close> class of the resources package (its
  \<^verbatim>\<open>attributes\<close>, \<^verbatim>\<open>merge\<close> and \<^verbatim>\<open>waitForAsyncAttributes\<close>) is not in the
  repository. A resource holds the attributes it has now and, when some are still being
  resolved asynchronously, the attributes their resolution will deliver. While the
  resolution is pending only the synchronous attributes can be read.
\<close>

record resource =
  syncAttributes :: attributes
  asyncAttributes :: "attributes option"
  asyncAttributesPending :: bool

text \<open>
  Modelled from the spec: the attributes the pending resolution delivers (none when
  nothing is pending).
\<close>

definition delivered :: "resource \<Rightarrow> attributes" where
  "delivered r = (case asyncAttributes r of None \<Rightarrow> Map.empty | Some a \<Rightarrow> a)"

text \<open>
  Modelled from the spec: \<^verbatim>\<open>resource.attributes\<close>, which shows the delivered attributes
  once the resource has settled.
\<close>

definition attributesOf :: "resource \<Rightarrow> attributes" where
  "attributesOf r =
     (if asyncAttributesPending r then syncAttributes r
      else syncAttributes r ++ delivered r)"

text \<open>
  Modelled from the spec: \<^verbatim>\<open>new Resource(attrs)\<close> for a plain string-valued object;
  nothing is pending.
\<close>

definition newResource :: "(string \<rightharpoonup> string) \<Rightarrow> resource" where
  "newResource attrs =
     \<lparr>syncAttributes = map_option StrV \<circ> attrs, asyncAttributes = None,
      asyncAttributesPending = False\<rparr>"

text \<open>
  Modelled from the spec: \<^verbatim>\<open>this.merge(other)\<close> is the union of both resources in which
  the keys of \<open>other\<close> win; it is pending as long as one side has asynchronous attributes.
\<close>

definition merge :: "resource \<Rightarrow> resource \<Rightarrow> resource" where
  "merge this other =
     \<lparr>syncAttributes = syncAttributes this ++ syncAttributes other,
      asyncAttributes =
        (if asyncAttributes this = None \<and> asyncAttributes other = None then None
         else Some (syncAttributes this ++ delivered this
                    ++ syncAttributes other ++ delivered other)),
      asyncAttributesPending =
        (\<not> (asyncAttributes this = None \<and> asyncAttributes other = None))\<rparr>"

text \<open>
  Modelled from the spec: the resource once the promise behind
  \<^verbatim>\<open>waitForAsyncAttributes()\<close> has resolved.
\<close>

definition settled :: "resource \<Rightarrow> resource" where
  "settled r = r\<lparr>asyncAttributesPending := False\<rparr>"

text \<open>
  One run's environment and collaborators. \<open>env\<close> is \<^verbatim>\<open>process.env\<close>;
  \<open>detect\<close> is what \<^verbatim>\<open>new GcpDetectorSync().detect()\<close> returns or throws;
  \<open>detectorWait\<close> is \<open>None\<close> when the detected resource has no
  \<^verbatim>\<open>waitForAsyncAttributes\<close> method, else how awaiting it ends; \<open>mergedWait\<close> is how
  awaiting the merged resource ends; the other fields say whether the call throws
  (\<open>None\<close>: it returns).
\<close>

record world =
  env :: "string \<rightharpoonup> string"
  detect :: "error + resource"
  detectorWait :: "settle option"
  mergeCall :: "error option"
  mergedWait :: settle
  newExporter :: "error option"
  newReader :: "error option"
  newMeterProvider :: "error option"
  getMeter :: "error option"
  createCounter :: "string \<Rightarrow> error option"

section \<open>Keys and constants\<close>

text \<open>
  The attribute keys the module names. They are constants of the semantic-conventions
  package, which is not in the repository; the values are the ones the package publishes,
  and the proofs below rest only on the seven keys being pairwise distinct.
\<close>

definition SEMRESATTRS_SERVICE_NAMESPACE :: string where
  "SEMRESATTRS_SERVICE_NAMESPACE = ''service.namespace''"

definition SEMRESATTRS_SERVICE_NAME :: string where
  "SEMRESATTRS_SERVICE_NAME = ''service.name''"

definition SEMRESATTRS_SERVICE_VERSION :: string where
  "SEMRESATTRS_SERVICE_VERSION = ''service.version''"

definition SEMRESATTRS_K8S_POD_NAME :: string where
  "SEMRESATTRS_K8S_POD_NAME = ''k8s.pod.name''"

definition SEMRESATTRS_CLOUD_PLATFORM :: string where
  "SEMRESATTRS_CLOUD_PLATFORM = ''cloud.platform''"

definition SEMRESATTRS_FAAS_ID :: string where
  "SEMRESATTRS_FAAS_ID = ''faas.id''"

definition SEMRESATTRS_SERVICE_INSTANCE_ID :: string where
  "SEMRESATTRS_SERVICE_INSTANCE_ID = ''service.instance.id''"

definition COUNTERS_PREFIX :: string where
  "COUNTERS_PREFIX = ''nielm-test/''"

definition REQUEST_COUNTER :: string where
  "REQUEST_COUNTER = COUNTERS_PREFIX @ ''request-counter''"

definition BACKGROUND_COUNTER :: string where
  "BACKGROUND_COUNTER = COUNTERS_PREFIX @ ''background-counter''"

text \<open>The three warnings of \<^verbatim>\<open>initMetrics\<close>.\<close>

definition K8S_POD_NAME_WARNING :: string where
  "K8S_POD_NAME_WARNING =
     ''WARNING: running under Kubernetes, but K8S_POD_NAME ''
     @ ''environment variable is not set. ''
     @ ''This may lead to Send TimeSeries errors''"

definition FAAS_ID_WARNING :: string where
  "FAAS_ID_WARNING =
     ''WARNING: running under Cloud Functions, but FAAS_ID ''
     @ ''resource attribute is not set. ''
     @ ''This may lead to Send TimeSeries errors''"

definition DEFAULT_BEHAVIOR_WARNING :: string where
  "DEFAULT_BEHAVIOR_WARNING = ''WARNING: Using Default Cloud Functions Behavior''"

section \<open>State and observable events\<close>

datatype level = Debug | Info | Warn | Err

datatype payload = Text string | WithResource string resource | Caught error

text \<open>
  What a run does, in order: log lines, reads of the environment, assignments to
  \<^verbatim>\<open>RESOURCE_ATTRIBUTES\<close> and the calls into the collaborators that returned.
\<close>

datatype event =
    Log level payload
  | EnvRead string
  | SetAttribute string string
  | Detect
  | AwaitDetector
  | DetectorSettled
  | Merge
  | AwaitMerged
  | MergedSettled
  | NewExporter string
  | NewReader nat nat
  | NewMeterProvider resource
  | GetMeter string
  | CreateCounter string
  | SetInterval nat
  | RegisterHttp string
  | CounterAdd string nat
  | Send string
  | Exit nat

text \<open>
  The module's variables (\<^verbatim>\<open>RESOURCE_ATTRIBUTES\<close>, \<^verbatim>\<open>backgroundCounter\<close>,
  \<^verbatim>\<open>requestCounter\<close>; a counter handle is the counter's name, \<open>None\<close> is
  \<^verbatim>\<open>undefined\<close>), the two locals of \<^verbatim>\<open>initMetrics\<close> that outlive its awaits
  (\<^verbatim>\<open>gcpResources\<close>, \<^verbatim>\<open>resources\<close>), the amounts added to every created counter, and
  the events so far.
\<close>

record state =
  RESOURCE_ATTRIBUTES :: "string \<rightharpoonup> string"
  backgroundCounter :: "string option"
  requestCounter :: "string option"
  gcpResources :: "resource option"
  resources :: "resource option"
  counters :: "string \<rightharpoonup> nat list"
  trace :: "event list"

definition initialState :: state where
  "initialState =
     \<lparr>RESOURCE_ATTRIBUTES =
        [SEMRESATTRS_SERVICE_NAMESPACE \<mapsto> ''nielm'',
         SEMRESATTRS_SERVICE_NAME \<mapsto> ''counters-test'',
         SEMRESATTRS_SERVICE_VERSION \<mapsto> ''1.0.0''],
      backgroundCounter = None, requestCounter = None,
      gcpResources = None, resources = None,
      counters = Map.empty, trace = []\<rparr>"

definition emit :: "event \<Rightarrow> state \<Rightarrow> state" where
  "emit e st = st\<lparr>trace := trace st @ [e]\<rparr>"

definition logger :: "level \<Rightarrow> string \<Rightarrow> state \<Rightarrow> state" where
  "logger l m st = emit (Log l (Text m)) st"

text \<open>\<^verbatim>\<open>if (process.env.X)\<close>: the variable is present and not the empty string.\<close>

definition truthy :: "string option \<Rightarrow> bool" where
  "truthy v = (case v of None \<Rightarrow> False | Some s \<Rightarrow> s \<noteq> [])"

text \<open>\<^verbatim>\<open>RESOURCE_ATTRIBUTES[key] = value\<close>\<close>

definition setAttribute :: "string \<Rightarrow> string \<Rightarrow> state \<Rightarrow> state" where
  "setAttribute k v st =
     emit (SetAttribute k v) (st\<lparr>RESOURCE_ATTRIBUTES := (RESOURCE_ATTRIBUTES st)(k \<mapsto> v)\<rparr>)"

section \<open>The initialization sequence\<close>

text \<open>Lines 50 to 63: the Kubernetes branch.\<close>

definition checkKubernetes :: "world \<Rightarrow> state \<Rightarrow> state" where
  "checkKubernetes w st =
     (let st1 = emit (EnvRead ''KUBERNETES_SERVICE_HOST'') st in
      if truthy (env w ''KUBERNETES_SERVICE_HOST'') then
        (let st2 = emit (EnvRead ''K8S_POD_NAME'') st1 in
         case env w ''K8S_POD_NAME'' of
           None \<Rightarrow>
             logger Warn K8S_POD_NAME_WARNING st2
         | Some v \<Rightarrow>
             if v \<noteq> [] then setAttribute SEMRESATTRS_K8S_POD_NAME v st2
             else
               logger Warn K8S_POD_NAME_WARNING st2)
      else st1)"

text \<open>
  Lines 70 to 91: the Cloud Functions branch. \<^verbatim>\<open>&&\<close> reads the second variable only
  when the first is truthy; \<^verbatim>\<open>?.toString()\<close> of a missing attribute is undefined.
\<close>

definition checkCloudFunctions :: "world \<Rightarrow> resource \<Rightarrow> state \<Rightarrow> state" where
  "checkCloudFunctions w gcp st =
     (let st1 = emit (EnvRead ''FUNCTION_TARGET'') st;
          st2 = (if truthy (env w ''FUNCTION_TARGET'')
                 then emit (EnvRead ''USE_OTEL_GCF_WORKAROUND'') st1 else st1) in
      if truthy (env w ''FUNCTION_TARGET'') \<and> truthy (env w ''USE_OTEL_GCF_WORKAROUND'') then
        (let st3 = setAttribute SEMRESATTRS_CLOUD_PLATFORM ''generic_task'' st2 in
         case attributesOf gcp SEMRESATTRS_FAAS_ID of
           None \<Rightarrow>
             logger Warn FAAS_ID_WARNING st3
         | Some v \<Rightarrow>
             if toString v \<noteq> [] then
               setAttribute SEMRESATTRS_SERVICE_INSTANCE_ID (toString v) st3
             else
               logger Warn FAAS_ID_WARNING st3)
      else logger Warn DEFAULT_BEHAVIOR_WARNING st2)"

text \<open>
  Where \<^verbatim>\<open>initMetrics\<close> stands: suspended at one of its two awaits with the resource it
  waits for, suspended for ever at an await that never settles, rejected with an
  exception, or returned.
\<close>

datatype suspended = AwaitingDetector resource | AwaitingMerged resource

datatype promise = Pending suspended | Stuck suspended | Rejected error | Fulfilled

text \<open>Lines 95 to 118: after the merged resource has settled.\<close>

definition afterMerged :: "world \<Rightarrow> resource \<Rightarrow> state \<Rightarrow> promise \<times> state" where
  "afterMerged w res st =
     (let st1 = emit (Log Info (WithResource ''Got Resource Attributes: '' res)) st in
      case newExporter w of Some e \<Rightarrow> (Rejected e, st1) | None \<Rightarrow>
     (let st2 = emit (NewExporter ''custom.googleapis.com'') st1 in
      case newReader w of Some e \<Rightarrow> (Rejected e, st2) | None \<Rightarrow>
     (let st3 = emit (NewReader 10000 10000) st2 in
      case newMeterProvider w of Some e \<Rightarrow> (Rejected e, st3) | None \<Rightarrow>
     (let st4 = emit (NewMeterProvider res) st3 in
      case getMeter w of Some e \<Rightarrow> (Rejected e, st4) | None \<Rightarrow>
     (let st5 = emit (GetMeter COUNTERS_PREFIX) st4 in
      case createCounter w REQUEST_COUNTER of Some e \<Rightarrow> (Rejected e, st5) | None \<Rightarrow>
     (let st6 = emit (CreateCounter REQUEST_COUNTER)
                  (st5\<lparr>counters := (counters st5)(REQUEST_COUNTER \<mapsto> []),
                       requestCounter := Some REQUEST_COUNTER\<rparr>) in
      case createCounter w BACKGROUND_COUNTER of Some e \<Rightarrow> (Rejected e, st6) | None \<Rightarrow>
     (let st7 = emit (CreateCounter BACKGROUND_COUNTER)
                  (st6\<lparr>counters := (counters st6)(BACKGROUND_COUNTER \<mapsto> []),
                       backgroundCounter := Some BACKGROUND_COUNTER\<rparr>) in
      (Fulfilled, logger Info ''Metrics initialized, counters ready'' st7))))))))"

text \<open>Lines 70 to 94: from the end of detection to the await of the merged resource.\<close>

definition afterDetection :: "world \<Rightarrow> resource \<Rightarrow> state \<Rightarrow> promise \<times> state" where
  "afterDetection w gcp st =
     (let st1 = checkCloudFunctions w gcp st in
      case mergeCall w of Some e \<Rightarrow> (Rejected e, st1) | None \<Rightarrow>
     (let res = merge gcp (newResource (RESOURCE_ATTRIBUTES st1));
          st2 = emit Merge (st1\<lparr>resources := Some res\<rparr>) in
      (Pending (AwaitingMerged res), emit AwaitMerged st2)))"

text \<open>
  Lines 48 to 68: the part of \<^verbatim>\<open>initMetrics()\<close> that runs inside the call, up to its
  first await. Without a \<^verbatim>\<open>waitForAsyncAttributes\<close> method on the detected resource the
  first await is the one of line 94.
\<close>

definition initMetrics_enter :: "world \<Rightarrow> state \<Rightarrow> promise \<times> state" where
  "initMetrics_enter w st =
     (let st1 = logger Debug ''initializing metrics'' st;
          st2 = checkKubernetes w st1 in
      case detect w of
        Inl e \<Rightarrow> (Rejected e, st2)
      | Inr gcp \<Rightarrow>
          (let st3 = emit Detect (st2\<lparr>gcpResources := Some gcp\<rparr>) in
           case detectorWait w of
             None \<Rightarrow> afterDetection w gcp st3
           | Some _ \<Rightarrow> (Pending (AwaitingDetector gcp), emit AwaitDetector st3)))"

text \<open>
  The function resumes when the promise it awaits settles. (It never suspends on a
  detected resource that has no \<^verbatim>\<open>waitForAsyncAttributes\<close> method, so the first inner case
  is there for totality only.)
\<close>

definition continue :: "world \<Rightarrow> suspended \<Rightarrow> state \<Rightarrow> promise \<times> state" where
  "continue w s st =
     (case s of
        AwaitingDetector gcp \<Rightarrow>
          (case detectorWait w of
             None \<Rightarrow> afterDetection w gcp st
           | Some Resolves \<Rightarrow>
               afterDetection w (settled gcp)
                 (emit DetectorSettled (st\<lparr>gcpResources := Some (settled gcp)\<rparr>))
           | Some (Rejects e) \<Rightarrow> (Rejected e, st)
           | Some Never \<Rightarrow> (Stuck s, st))
      | AwaitingMerged res \<Rightarrow>
          (case mergedWait w of
             Resolves \<Rightarrow>
               afterMerged w (settled res)
                 (emit MergedSettled (st\<lparr>resources := Some (settled res)\<rparr>))
           | Rejects e \<Rightarrow> (Rejected e, st)
           | Never \<Rightarrow> (Stuck s, st)))"

text \<open>The rest of the function after its call: at most two resumptions.\<close>

definition runToCompletion :: "world \<Rightarrow> promise \<times> state \<Rightarrow> promise \<times> state" where
  "runToCompletion w ps =
     (case ps of
        (Pending s1, st1) \<Rightarrow>
          (case continue w s1 st1 of
             (Pending s2, st2) \<Rightarrow> continue w s2 st2
           | r \<Rightarrow> r)
      | r \<Rightarrow> r)"

text \<open>\<^verbatim>\<open>initMetrics\<close> as a whole, when nothing else runs between its awaits.\<close>

definition initMetrics :: "world \<Rightarrow> state \<Rightarrow> promise \<times> state" where
  "initMetrics w st = runToCompletion w (initMetrics_enter w st)"

section \<open>The module: load, completion of the promise, timer and requests\<close>

text \<open>Lines 121 to 128: the \<^verbatim>\<open>then\<close> callback.\<close>

definition onFulfilled :: "state \<Rightarrow> state" where
  "onFulfilled st =
     logger Info ''Background task started - increments counter ever 2 seconds''
       (emit (SetInterval 2000) st)"

text \<open>Lines 129 to 132: the \<^verbatim>\<open>catch\<close> callback.\<close>

definition onRejected :: "error \<Rightarrow> state \<Rightarrow> state" where
  "onRejected e st = emit (Exit 1) (emit (Log Err (Caught e)) st)"

text \<open>
  Lines 135 to 141: the HTTP handler is registered under its name and the last line of the
  module is logged.
\<close>

definition registerHandler :: "state \<Rightarrow> state" where
  "registerHandler st =
     logger Info ''HTTP handler ready.'' (emit (RegisterHttp ''handleHttpReq'') st)"

text \<open>
  The module's top level: \<^verbatim>\<open>initMetrics()\<close> runs to its first await, the callbacks are
  attached and the handler is registered. Callbacks of promises run only after the top
  level has finished.
\<close>

definition moduleLoad :: "world \<Rightarrow> promise \<times> state" where
  "moduleLoad w =
     (case initMetrics_enter w initialState of (p, st1) \<Rightarrow> (p, registerHandler st1))"

text \<open>\<^verbatim>\<open>.then(...).catch(...)\<close> on the promise of \<^verbatim>\<open>initMetrics()\<close>.\<close>

definition settlePromise :: "promise \<times> state \<Rightarrow> promise \<times> state" where
  "settlePromise ps =
     (case ps of
        (Fulfilled, st) \<Rightarrow> (Fulfilled, onFulfilled st)
      | (Rejected e, st) \<Rightarrow> (Rejected e, onRejected e st)
      | r \<Rightarrow> r)"

text \<open>The process from its start until \<^verbatim>\<open>initMetrics\<close> has returned, failed or hung.\<close>

definition startup :: "world \<Rightarrow> promise \<times> state" where
  "startup w = settlePromise (runToCompletion w (moduleLoad w))"

text \<open>
  Modelled from the spec: \<^verbatim>\<open>counter.add(n)\<close> of the metrics package, on the counter a
  handle names. A counter is an add-only accumulator; the model keeps every amount added.
\<close>

definition counterAdd :: "string \<Rightarrow> nat \<Rightarrow> state \<Rightarrow> state" where
  "counterAdd c n st =
     emit (CounterAdd c n)
       (st\<lparr>counters :=
            (counters st)(c \<mapsto> (case counters st c of None \<Rightarrow> [n] | Some xs \<Rightarrow> xs @ [n]))\<rparr>)"

text \<open>
  Lines 122 to 124 and 135 to 139. A call of \<^verbatim>\<open>add\<close> on an undefined handle throws a
  TypeError; the first component is the exception, if any.
\<close>

definition backgroundTask :: "state \<Rightarrow> error option \<times> state" where
  "backgroundTask st =
     (case backgroundCounter st of
        None \<Rightarrow> (Some (TypeError ''Cannot read properties of undefined (reading add)''), st)
      | Some c \<Rightarrow> (None, counterAdd c 1 st))"

definition handleHttpReq :: "state \<Rightarrow> error option \<times> state" where
  "handleHttpReq st =
     (let st1 = logger Info ''handling HTTP request'' st in
      case requestCounter st1 of
        None \<Rightarrow> (Some (TypeError ''Cannot read properties of undefined (reading add)''), st1)
      | Some c \<Rightarrow> (None, emit (Send ''OK'') (counterAdd c 1 st1)))"

text \<open>Timer ticks and requests arrive one callback at a time, in any order.\<close>

datatype action = Tick | Request

fun dispatch :: "action \<Rightarrow> state \<Rightarrow> error option \<times> state" where
  "dispatch Tick st = backgroundTask st"
| "dispatch Request st = handleHttpReq st"

fun runAll :: "action list \<Rightarrow> state \<Rightarrow> error option list \<times> state" where
  "runAll [] st = ([], st)"
| "runAll (a # as) st =
     (case dispatch a st of
        (r, st1) \<Rightarrow> (case runAll as st1 of (rs, st2) \<Rightarrow> (r # rs, st2)))"

text \<open>
  The attribute mapping of the module once both branches have run from the module's
  initial state, when the detected resource is \<open>g\<close>: what line 93 wraps in a resource.
\<close>

definition explicitAttributes :: "world \<Rightarrow> resource \<Rightarrow> (string \<rightharpoonup> string)" where
  "explicitAttributes w g =
     RESOURCE_ATTRIBUTES (checkCloudFunctions w g (checkKubernetes w initialState))"

text \<open>
  The attributes of the resolved identity of a run (the local \<^verbatim>\<open>resources\<close>) and of
  its detected resource (the local \<^verbatim>\<open>gcpResources\<close>) as they stand at the end; empty when
  the run never got that far.
\<close>

definition resolvedIdentity :: "world \<Rightarrow> attributes" where
  "resolvedIdentity w =
     (case resources (snd (startup w)) of None \<Rightarrow> Map.empty | Some r \<Rightarrow> attributesOf r)"

definition detectedAttributes :: "world \<Rightarrow> attributes" where
  "detectedAttributes w =
     (case gcpResources (snd (startup w)) of None \<Rightarrow> Map.empty | Some g \<Rightarrow> attributesOf g)"

section \<open>Vocabulary of the properties\<close>

text \<open>
  \<open>precededBy P Q tr\<close>: scanning \<open>tr\<close> from its start, no \<open>Q\<close> event stands before the
  first \<open>P\<close> event, so every \<open>Q\<close> event of the run comes after a \<open>P\<close> event.
\<close>

fun precededBy :: "(event \<Rightarrow> bool) \<Rightarrow> (event \<Rightarrow> bool) \<Rightarrow> event list \<Rightarrow> bool" where
  "precededBy P Q [] = True"
| "precededBy P Q (e # es) = (P e \<or> (\<not> Q e \<and> precededBy P Q es))"

text \<open>The metrics provider is constructed, or a counter is created.\<close>

fun isBootstrap :: "event \<Rightarrow> bool" where
  "isBootstrap (NewMeterProvider r) = True"
| "isBootstrap (CreateCounter n) = True"
| "isBootstrap e = False"

fun isMergedSettled :: "event \<Rightarrow> bool" where
  "isMergedSettled MergedSettled = True"
| "isMergedSettled e = False"

text \<open>A provider, if this event constructs one, gets a resource with nothing pending.\<close>

fun providerResolved :: "event \<Rightarrow> bool" where
  "providerResolved (NewMeterProvider r) = (\<not> asyncAttributesPending r)"
| "providerResolved e = True"

text \<open>The orchestration check: the two Kubernetes variables and the pod-name key.\<close>

fun isOrchestration :: "event \<Rightarrow> bool" where
  "isOrchestration (EnvRead k) = (k = ''KUBERNETES_SERVICE_HOST'' \<or> k = ''K8S_POD_NAME'')"
| "isOrchestration (SetAttribute k v) = (k = SEMRESATTRS_K8S_POD_NAME)"
| "isOrchestration e = False"

fun isHostCheck :: "event \<Rightarrow> bool" where
  "isHostCheck (EnvRead k) = (k = ''KUBERNETES_SERVICE_HOST'')"
| "isHostCheck e = False"

text \<open>The detector: its invocation and the await of its pending attributes.\<close>

fun isDetection :: "event \<Rightarrow> bool" where
  "isDetection Detect = True"
| "isDetection AwaitDetector = True"
| "isDetection DetectorSettled = True"
| "isDetection e = False"

fun isRegistration :: "event \<Rightarrow> bool" where
  "isRegistration (RegisterHttp n) = True"
| "isRegistration e = False"

text \<open>What must not happen before the handler is registered, for it to be registered first.\<close>

fun isCompletion :: "event \<Rightarrow> bool" where
  "isCompletion MergedSettled = True"
| "isCompletion (NewExporter p) = True"
| "isCompletion (NewReader i t) = True"
| "isCompletion (NewMeterProvider r) = True"
| "isCompletion (GetMeter n) = True"
| "isCompletion (CreateCounter n) = True"
| "isCompletion (SetInterval n) = True"
| "isCompletion (Exit n) = True"
| "isCompletion e = False"

fun exitCodes :: "event list \<Rightarrow> nat list" where
  "exitCodes [] = []"
| "exitCodes (Exit n # es) = n # exitCodes es"
| "exitCodes (e # es) = exitCodes es"

fun sent :: "event list \<Rightarrow> string list" where
  "sent [] = []"
| "sent (Send b # es) = b # sent es"
| "sent (e # es) = sent es"

text \<open>The events of the three stretches of \<^verbatim>\<open>initMetrics\<close>, for the proofs below.\<close>

fun emitsK8s :: "event \<Rightarrow> bool" where
  "emitsK8s (Log l m) = True"
| "emitsK8s (EnvRead k) = (k = ''KUBERNETES_SERVICE_HOST'' \<or> k = ''K8S_POD_NAME'')"
| "emitsK8s (SetAttribute k v) = (k = SEMRESATTRS_K8S_POD_NAME)"
| "emitsK8s e = False"

fun emitsResolve :: "event \<Rightarrow> bool" where
  "emitsResolve (Log l m) = True"
| "emitsResolve (EnvRead k) = (k = ''FUNCTION_TARGET'' \<or> k = ''USE_OTEL_GCF_WORKAROUND'')"
| "emitsResolve (SetAttribute k v) =
     (k = SEMRESATTRS_CLOUD_PLATFORM \<or> k = SEMRESATTRS_SERVICE_INSTANCE_ID)"
| "emitsResolve Detect = True"
| "emitsResolve AwaitDetector = True"
| "emitsResolve DetectorSettled = True"
| "emitsResolve Merge = True"
| "emitsResolve AwaitMerged = True"
| "emitsResolve e = False"

fun emitsBoot :: "event \<Rightarrow> bool" where
  "emitsBoot (Log l m) = True"
| "emitsBoot (NewExporter p) = True"
| "emitsBoot (NewReader i t) = True"
| "emitsBoot (NewMeterProvider r) = providerResolved (NewMeterProvider r)"
| "emitsBoot (GetMeter n) = True"
| "emitsBoot (CreateCounter n) = True"
| "emitsBoot e = False"

text \<open>The events of the callback that runs when the promise of \<^verbatim>\<open>initMetrics()\<close> settles.\<close>

fun finalEvents :: "promise \<Rightarrow> event list" where
  "finalEvents Fulfilled =
     [SetInterval 2000,
      Log Info (Text ''Background task started - increments counter ever 2 seconds'')]"
| "finalEvents (Rejected e) = [Log Err (Caught e), Exit 1]"
| "finalEvents p = []"

text \<open>
  What the calls a run makes into the packages amount to, read off the world alone in the
  order the code makes them (lines 65, 67, 93, 94, 97, 102, 99, 112, 114, 116): every call
  the run makes returns and every await resolves; or some call throws or some await
  rejects, with the first exception so raised (a call behind it is never made); or an
  await never settles before anything is raised.
\<close>

datatype ending = AllReturn | Raises error | Hangs

definition bootstrapCalls :: "world \<Rightarrow> ending" where
  "bootstrapCalls w =
     (case newExporter w of Some e \<Rightarrow> Raises e | None \<Rightarrow>
     (case newReader w of Some e \<Rightarrow> Raises e | None \<Rightarrow>
     (case newMeterProvider w of Some e \<Rightarrow> Raises e | None \<Rightarrow>
     (case getMeter w of Some e \<Rightarrow> Raises e | None \<Rightarrow>
     (case createCounter w REQUEST_COUNTER of Some e \<Rightarrow> Raises e | None \<Rightarrow>
     (case createCounter w BACKGROUND_COUNTER of Some e \<Rightarrow> Raises e | None \<Rightarrow>
        AllReturn))))))"

definition collaborators :: "world \<Rightarrow> ending" where
  "collaborators w =
     (case detect w of
        Inl e \<Rightarrow> Raises e
      | Inr d \<Rightarrow>
          (case detectorWait w of
             Some (Rejects e) \<Rightarrow> Raises e
           | Some Never \<Rightarrow> Hangs
           | _ \<Rightarrow>
               (case mergeCall w of
                  Some e \<Rightarrow> Raises e
                | None \<Rightarrow>
                    (case mergedWait w of
                       Rejects e \<Rightarrow> Raises e
                     | Never \<Rightarrow> Hangs
                     | Resolves \<Rightarrow> bootstrapCalls w))))"

section \<open>Concrete runs\<close>

text \<open>
  A run in which every collaborator call returns: the environment is \<open>e\<close>, the detector
  returns a resource whose attributes \<open>a\<close> are delivered asynchronously, and both awaits
  resolve.
\<close>

definition quietWorld :: "(string \<rightharpoonup> string) \<Rightarrow> attributes \<Rightarrow> world" where
  "quietWorld e a =
     \<lparr>env = e,
      detect = Inr \<lparr>syncAttributes = Map.empty, asyncAttributes = Some a,
                    asyncAttributesPending = True\<rparr>,
      detectorWait = Some Resolves, mergeCall = None, mergedWait = Resolves,
      newExporter = None, newReader = None, newMeterProvider = None, getMeter = None,
      createCounter = (\<lambda>n. None)\<rparr>"

text \<open>A Cloud Function with the workaround switched on; the detector finds the instance.\<close>

definition worldGcf :: world where
  "worldGcf =
     quietWorld [''FUNCTION_TARGET'' \<mapsto> ''handleHttpReq'', ''USE_OTEL_GCF_WORKAROUND'' \<mapsto> ''true'']
       [SEMRESATTRS_CLOUD_PLATFORM \<mapsto> StrV ''gcp_cloud_functions'',
        SEMRESATTRS_FAAS_ID \<mapsto> StrV ''abc123'']"


text \<open>A pod under Kubernetes with its name in the environment.\<close>

definition worldGke :: world where
  "worldGke =
     quietWorld [''KUBERNETES_SERVICE_HOST'' \<mapsto> ''10.0.0.1'', ''K8S_POD_NAME'' \<mapsto> ''pod-7'']
       [SEMRESATTRS_CLOUD_PLATFORM \<mapsto> StrV ''gcp_kubernetes_engine'']"

text \<open>Under Kubernetes without the variable; the detector reports a pod name itself.\<close>

definition worldGkeNoPodName :: world where
  "worldGkeNoPodName =
     quietWorld [''KUBERNETES_SERVICE_HOST'' \<mapsto> ''10.0.0.1'']
       [SEMRESATTRS_K8S_POD_NAME \<mapsto> StrV ''detected-pod'']"

text \<open>Under Kubernetes without the variable, and the detector reports no pod name.\<close>

definition worldPodless :: world where
  "worldPodless =
     quietWorld [''KUBERNETES_SERVICE_HOST'' \<mapsto> ''10.0.0.1'']
       [SEMRESATTRS_CLOUD_PLATFORM \<mapsto> StrV ''gcp_kubernetes_engine'']"

text \<open>No variable set, nothing detected.\<close>

definition worldPlain :: world where
  "worldPlain = quietWorld Map.empty Map.empty"

text \<open>Every call returns but the registration of the background counter, which throws.\<close>

definition worldSecondCounterFails :: world where
  "worldSecondCounterFails =
     worldPlain\<lparr>createCounter :=
       (\<lambda>n. if n = BACKGROUND_COUNTER then Some (Thrown ''createCounter failed'') else None)\<rparr>"

text \<open>The exporter cannot be constructed.\<close>

definition worldExporterFails :: world where
  "worldExporterFails = worldPlain\<lparr>newExporter := Some (Thrown ''no credentials'')\<rparr>"

text \<open>
  A Cloud Function whose opt-in flag is set to the empty string, and one whose function
  target is; the detector finds the platform and the function id in both.
\<close>

definition worldGcfFlagEmpty :: world where
  "worldGcfFlagEmpty =
     quietWorld [''FUNCTION_TARGET'' \<mapsto> ''handleHttpReq'', ''USE_OTEL_GCF_WORKAROUND'' \<mapsto> '''']
       [SEMRESATTRS_CLOUD_PLATFORM \<mapsto> StrV ''gcp_cloud_functions'',
        SEMRESATTRS_FAAS_ID \<mapsto> StrV ''abc123'']"

definition worldGcfTargetEmpty :: world where
  "worldGcfTargetEmpty =
     quietWorld [''FUNCTION_TARGET'' \<mapsto> '''', ''USE_OTEL_GCF_WORKAROUND'' \<mapsto> ''true'']
       [SEMRESATTRS_CLOUD_PLATFORM \<mapsto> StrV ''gcp_cloud_functions'',
        SEMRESATTRS_FAAS_ID \<mapsto> StrV ''abc123'']"

text \<open>
  Under Kubernetes with the pod-name variable set to the empty string; a pod whose host
  variable is set to the empty string; and the host variable set to the empty string with
  no pod-name variable.
\<close>

definition worldGkeEmptyPodName :: world where
  "worldGkeEmptyPodName =
     quietWorld [''KUBERNETES_SERVICE_HOST'' \<mapsto> ''10.0.0.1'', ''K8S_POD_NAME'' \<mapsto> '''']
       [SEMRESATTRS_CLOUD_PLATFORM \<mapsto> StrV ''gcp_kubernetes_engine'']"

definition worldGkeEmptyHost :: world where
  "worldGkeEmptyHost =
     quietWorld [''KUBERNETES_SERVICE_HOST'' \<mapsto> '''', ''K8S_POD_NAME'' \<mapsto> ''pod-7'']
       [SEMRESATTRS_CLOUD_PLATFORM \<mapsto> StrV ''gcp_kubernetes_engine'']"

definition worldEmptyHostOnly :: world where
  "worldEmptyHostOnly =
     quietWorld [''KUBERNETES_SERVICE_HOST'' \<mapsto> '''']
       [SEMRESATTRS_CLOUD_PLATFORM \<mapsto> StrV ''gcp_kubernetes_engine'']"

text \<open>Under Kubernetes without the pod-name variable, and the exporter cannot be constructed.\<close>

definition worldPodlessExporterFails :: world where
  "worldPodlessExporterFails = worldPodless\<lparr>newExporter := Some (Thrown ''no credentials'')\<rparr>"

text \<open>Runs in which one call throws or one await rejects, and every call before it returns.\<close>

definition worldDetectThrows :: world where
  "worldDetectThrows = worldPlain\<lparr>detect := Inl (Thrown ''detect failed'')\<rparr>"

definition worldDetectorRejects :: world where
  "worldDetectorRejects =
     worldPlain\<lparr>detectorWait := Some (Rejects (Thrown ''metadata unavailable''))\<rparr>"

definition worldMergeThrows :: world where
  "worldMergeThrows = worldPlain\<lparr>mergeCall := Some (Thrown ''merge failed'')\<rparr>"

definition worldMergedRejects :: world where
  "worldMergedRejects = worldPlain\<lparr>mergedWait := Rejects (Thrown ''attributes unavailable'')\<rparr>"

definition worldReaderFails :: world where
  "worldReaderFails = worldPlain\<lparr>newReader := Some (Thrown ''bad interval'')\<rparr>"

definition worldProviderFails :: world where
  "worldProviderFails = worldPlain\<lparr>newMeterProvider := Some (Thrown ''bad resource'')\<rparr>"

definition worldMeterFails :: world where
  "worldMeterFails = worldPlain\<lparr>getMeter := Some (Thrown ''no meter'')\<rparr>"

definition worldFirstCounterFails :: world where
  "worldFirstCounterFails =
     worldPlain\<lparr>createCounter :=
       (\<lambda>n. if n = REQUEST_COUNTER then Some (Thrown ''createCounter failed'') else None)\<rparr>"

section \<open>Effects of the parts of the initialization\<close>


lemma emit_fields [simp]:
  "trace (emit e st) = trace st @ [e]"
  "RESOURCE_ATTRIBUTES (emit e st) = RESOURCE_ATTRIBUTES st"
  "backgroundCounter (emit e st) = backgroundCounter st"
  "requestCounter (emit e st) = requestCounter st"
  "gcpResources (emit e st) = gcpResources st"
  "resources (emit e st) = resources st"
  "counters (emit e st) = counters st"
  by (simp_all add: emit_def)

lemma logger_fields [simp]:
  "trace (logger l m st) = trace st @ [Log l (Text m)]"
  "RESOURCE_ATTRIBUTES (logger l m st) = RESOURCE_ATTRIBUTES st"
  "backgroundCounter (logger l m st) = backgroundCounter st"
  "requestCounter (logger l m st) = requestCounter st"
  "gcpResources (logger l m st) = gcpResources st"
  "resources (logger l m st) = resources st"
  "counters (logger l m st) = counters st"
  by (simp_all add: logger_def)

lemma setAttribute_fields [simp]:
  "trace (setAttribute k v st) = trace st @ [SetAttribute k v]"
  "RESOURCE_ATTRIBUTES (setAttribute k v st) = (RESOURCE_ATTRIBUTES st)(k \<mapsto> v)"
  "backgroundCounter (setAttribute k v st) = backgroundCounter st"
  "requestCounter (setAttribute k v st) = requestCounter st"
  "gcpResources (setAttribute k v st) = gcpResources st"
  "resources (setAttribute k v st) = resources st"
  "counters (setAttribute k v st) = counters st"
  by (simp_all add: setAttribute_def)

subsection \<open>The Kubernetes branch\<close>

lemma checkKubernetes_frame [simp]:
  "backgroundCounter (checkKubernetes w st) = backgroundCounter st"
  "requestCounter (checkKubernetes w st) = requestCounter st"
  "gcpResources (checkKubernetes w st) = gcpResources st"
  "resources (checkKubernetes w st) = resources st"
  "counters (checkKubernetes w st) = counters st"
  by (simp_all add: checkKubernetes_def Let_def split: option.splits)

lemma checkKubernetes_attrs:
  "RESOURCE_ATTRIBUTES (checkKubernetes w st) =
     (case env w ''K8S_POD_NAME'' of
        None \<Rightarrow> RESOURCE_ATTRIBUTES st
      | Some v \<Rightarrow>
          if truthy (env w ''KUBERNETES_SERVICE_HOST'') \<and> v \<noteq> []
          then (RESOURCE_ATTRIBUTES st)(SEMRESATTRS_K8S_POD_NAME \<mapsto> v)
          else RESOURCE_ATTRIBUTES st)"
  by (simp add: checkKubernetes_def Let_def split: option.splits)

lemma checkKubernetes_trace:
  "\<exists>es. trace (checkKubernetes w st) = trace st @ EnvRead ''KUBERNETES_SERVICE_HOST'' # es
     \<and> list_all emitsK8s es"
  by (simp add: checkKubernetes_def Let_def split: option.splits)

subsection \<open>The Cloud Functions branch\<close>

lemma checkCloudFunctions_frame [simp]:
  "backgroundCounter (checkCloudFunctions w g st) = backgroundCounter st"
  "requestCounter (checkCloudFunctions w g st) = requestCounter st"
  "gcpResources (checkCloudFunctions w g st) = gcpResources st"
  "resources (checkCloudFunctions w g st) = resources st"
  "counters (checkCloudFunctions w g st) = counters st"
  by (simp_all add: checkCloudFunctions_def Let_def split: option.splits)

lemma checkCloudFunctions_attrs:
  "RESOURCE_ATTRIBUTES (checkCloudFunctions w g st) =
     (if truthy (env w ''FUNCTION_TARGET'') \<and> truthy (env w ''USE_OTEL_GCF_WORKAROUND'') then
        (case attributesOf g SEMRESATTRS_FAAS_ID of
           None \<Rightarrow> (RESOURCE_ATTRIBUTES st)(SEMRESATTRS_CLOUD_PLATFORM \<mapsto> ''generic_task'')
         | Some v \<Rightarrow>
             if toString v \<noteq> [] then
               (RESOURCE_ATTRIBUTES st)(SEMRESATTRS_CLOUD_PLATFORM \<mapsto> ''generic_task'',
                  SEMRESATTRS_SERVICE_INSTANCE_ID \<mapsto> toString v)
             else (RESOURCE_ATTRIBUTES st)(SEMRESATTRS_CLOUD_PLATFORM \<mapsto> ''generic_task''))
      else RESOURCE_ATTRIBUTES st)"
  by (simp add: checkCloudFunctions_def Let_def split: option.splits)

lemma checkCloudFunctions_trace:
  "\<exists>es. trace (checkCloudFunctions w g st) = trace st @ EnvRead ''FUNCTION_TARGET'' # es
     \<and> list_all emitsResolve es"
  by (simp add: checkCloudFunctions_def Let_def split: option.splits)

subsection \<open>Bootstrap\<close>

lemma exitCodes_append: "exitCodes (xs @ ys) = exitCodes xs @ exitCodes ys"
  by (induction xs rule: exitCodes.induct) simp_all

lemma sent_append: "sent (xs @ ys) = sent xs @ sent ys"
  by (induction xs rule: sent.induct) simp_all

lemma afterMerged_frame [simp]:
  "RESOURCE_ATTRIBUTES (snd (afterMerged w r st)) = RESOURCE_ATTRIBUTES st"
  "gcpResources (snd (afterMerged w r st)) = gcpResources st"
  "resources (snd (afterMerged w r st)) = resources st"
  by (simp_all add: afterMerged_def Let_def split: option.splits)

lemma afterMerged_trace:
  "\<not> asyncAttributesPending r \<Longrightarrow>
   \<exists>bs. trace (snd (afterMerged w r st)) = trace st @ bs \<and> list_all emitsBoot bs"
  by (simp add: afterMerged_def Let_def split: option.splits)

lemma afterMerged_outcome:
  "fst (afterMerged w r st) = Fulfilled \<or> (\<exists>e. fst (afterMerged w r st) = Rejected e)"
  by (simp add: afterMerged_def Let_def split: option.splits)

lemma afterMerged_Fulfilled:
  "fst (afterMerged w r st) = Fulfilled \<Longrightarrow>
     requestCounter (snd (afterMerged w r st)) = Some REQUEST_COUNTER \<and>
     backgroundCounter (snd (afterMerged w r st)) = Some BACKGROUND_COUNTER \<and>
     counters (snd (afterMerged w r st)) =
       (counters st)(REQUEST_COUNTER \<mapsto> [], BACKGROUND_COUNTER \<mapsto> [])"
  by (simp add: afterMerged_def Let_def split: option.splits)

subsection \<open>From detection to the merge\<close>

lemma afterDetection_frame [simp]:
  "RESOURCE_ATTRIBUTES (snd (afterDetection w g st)) =
     RESOURCE_ATTRIBUTES (checkCloudFunctions w g st)"
  "gcpResources (snd (afterDetection w g st)) = gcpResources st"
  "backgroundCounter (snd (afterDetection w g st)) = backgroundCounter st"
  "requestCounter (snd (afterDetection w g st)) = requestCounter st"
  "counters (snd (afterDetection w g st)) = counters st"
  by (simp_all add: afterDetection_def Let_def split: option.splits)

lemma afterDetection_fst:
  "fst (afterDetection w g st) =
     (case mergeCall w of
        Some e \<Rightarrow> Rejected e
      | None \<Rightarrow> Pending (AwaitingMerged
          (merge g (newResource (RESOURCE_ATTRIBUTES (checkCloudFunctions w g st))))))"
  by (simp add: afterDetection_def Let_def split: option.splits)

lemma afterDetection_resources:
  "resources (snd (afterDetection w g st)) =
     (case mergeCall w of
        Some e \<Rightarrow> resources st
      | None \<Rightarrow> Some (merge g (newResource (RESOURCE_ATTRIBUTES (checkCloudFunctions w g st)))))"
  by (simp add: afterDetection_def Let_def split: option.splits)

lemma afterDetection_trace:
  "\<exists>es. trace (snd (afterDetection w g st)) = trace st @ EnvRead ''FUNCTION_TARGET'' # es
     \<and> list_all emitsResolve es"
proof -
  obtain es where es: "trace (checkCloudFunctions w g st) = trace st @ EnvRead ''FUNCTION_TARGET'' # es"
    "list_all emitsResolve es"
    using checkCloudFunctions_trace by blast
  then show ?thesis
    by (simp add: afterDetection_def Let_def split: option.splits)
qed


subsection \<open>The merged resource\<close>

lemma attributesOf_merge:
  "attributesOf (merge g (newResource m)) k =
     (case m k of Some v \<Rightarrow> Some (StrV v) | None \<Rightarrow> syncAttributes g k)"
  by (simp add: attributesOf_def merge_def newResource_def delivered_def map_add_def
      split: option.splits)

lemma attributesOf_settled_merge:
  "attributesOf (settled (merge g (newResource m))) k =
     (case m k of Some v \<Rightarrow> Some (StrV v) | None \<Rightarrow> attributesOf (settled g) k)"
  by (simp add: attributesOf_def merge_def newResource_def delivered_def settled_def map_add_def
      split: option.splits)

lemma pending_settled [simp]: "\<not> asyncAttributesPending (settled r)"
  by (simp add: settled_def)

subsection \<open>The paths of a run\<close>

lemma registerHandler_fields [simp]:
  "trace (registerHandler st) =
     trace st @ [RegisterHttp ''handleHttpReq'', Log Info (Text ''HTTP handler ready.'')]"
  "RESOURCE_ATTRIBUTES (registerHandler st) = RESOURCE_ATTRIBUTES st"
  "backgroundCounter (registerHandler st) = backgroundCounter st"
  "requestCounter (registerHandler st) = requestCounter st"
  "gcpResources (registerHandler st) = gcpResources st"
  "resources (registerHandler st) = resources st"
  "counters (registerHandler st) = counters st"
  by (simp_all add: registerHandler_def)

lemma onFulfilled_fields [simp]:
  "trace (onFulfilled st) =
     trace st @ [SetInterval 2000,
       Log Info (Text ''Background task started - increments counter ever 2 seconds'')]"
  "RESOURCE_ATTRIBUTES (onFulfilled st) = RESOURCE_ATTRIBUTES st"
  "backgroundCounter (onFulfilled st) = backgroundCounter st"
  "requestCounter (onFulfilled st) = requestCounter st"
  "gcpResources (onFulfilled st) = gcpResources st"
  "resources (onFulfilled st) = resources st"
  "counters (onFulfilled st) = counters st"
  by (simp_all add: onFulfilled_def)

lemma onRejected_fields [simp]:
  "trace (onRejected e st) = trace st @ [Log Err (Caught e), Exit 1]"
  "RESOURCE_ATTRIBUTES (onRejected e st) = RESOURCE_ATTRIBUTES st"
  "backgroundCounter (onRejected e st) = backgroundCounter st"
  "requestCounter (onRejected e st) = requestCounter st"
  "gcpResources (onRejected e st) = gcpResources st"
  "resources (onRejected e st) = resources st"
  "counters (onRejected e st) = counters st"
  by (simp_all add: onRejected_def)

lemma settlePromise_alt:
  "settlePromise ps =
     (case fst ps of
        Fulfilled \<Rightarrow> (Fulfilled, onFulfilled (snd ps))
      | Rejected e \<Rightarrow> (Rejected e, onRejected e (snd ps))
      | p \<Rightarrow> ps)"
  by (cases ps) (simp add: settlePromise_def split: promise.splits)

lemma afterMerged_cases:
  obtains (ok) "fst (afterMerged w r st) = Fulfilled"
  | (failed) e where "fst (afterMerged w r st) = Rejected e"
  using afterMerged_outcome by blast

lemma settlePromise_afterMerged:
  "settlePromise (afterMerged w r st) =
     (case fst (afterMerged w r st) of
        Rejected e \<Rightarrow> (Rejected e, onRejected e (snd (afterMerged w r st)))
      | p \<Rightarrow> (Fulfilled, onFulfilled (snd (afterMerged w r st))))"
  by (cases rule: afterMerged_cases [of w r st]) (simp_all add: settlePromise_alt)

lemma continue_merged:
  "continue w (AwaitingMerged r) st =
     (case mergedWait w of
        Resolves \<Rightarrow>
          afterMerged w (settled r) (emit MergedSettled (st\<lparr>resources := Some (settled r)\<rparr>))
      | Rejects e \<Rightarrow> (Rejected e, st)
      | Never \<Rightarrow> (Stuck (AwaitingMerged r), st))"
  by (simp add: continue_def)

lemma continue_merged_not_Pending: "fst (continue w (AwaitingMerged r) st) \<noteq> Pending s"
proof (cases "mergedWait w")
  case Resolves
  then show ?thesis
    by (cases rule: afterMerged_cases
        [of w "settled r" "emit MergedSettled (st\<lparr>resources := Some (settled r)\<rparr>)"])
      (simp_all add: continue_merged)
qed (simp_all add: continue_merged)

lemma run_merged:
  "runToCompletion w (Pending (AwaitingMerged r), st) = continue w (AwaitingMerged r) st"
  using continue_merged_not_Pending [of w r st]
  by (cases "continue w (AwaitingMerged r) st")
    (auto simp: runToCompletion_def split: promise.splits)

lemma run_Rejected [simp]: "runToCompletion w (Rejected e, st) = (Rejected e, st)"
  by (simp add: runToCompletion_def)

lemma afterDetection_split:
  "afterDetection w g st =
     (case mergeCall w of
        Some e \<Rightarrow> (Rejected e, snd (afterDetection w g st))
      | None \<Rightarrow>
          (Pending (AwaitingMerged
             (merge g (newResource (RESOURCE_ATTRIBUTES (checkCloudFunctions w g st))))),
           snd (afterDetection w g st)))"
  by (simp add: afterDetection_def Let_def split: option.splits)

lemma run_afterDetection:
  "runToCompletion w (afterDetection w g st) =
     (case mergeCall w of
        Some e \<Rightarrow> (Rejected e, snd (afterDetection w g st))
      | None \<Rightarrow>
          continue w
            (AwaitingMerged
              (merge g (newResource (RESOURCE_ATTRIBUTES (checkCloudFunctions w g st)))))
            (snd (afterDetection w g st)))"
  by (subst afterDetection_split) (simp add: run_merged split: option.splits)

lemma run_detector:
  "runToCompletion w (Pending (AwaitingDetector d), st) =
     (case detectorWait w of
        None \<Rightarrow> runToCompletion w (afterDetection w d st)
      | Some Resolves \<Rightarrow>
          runToCompletion w (afterDetection w (settled d)
            (emit DetectorSettled (st\<lparr>gcpResources := Some (settled d)\<rparr>)))
      | Some (Rejects e) \<Rightarrow> (Rejected e, st)
      | Some Never \<Rightarrow> (Stuck (AwaitingDetector d), st))"
proof -
  have step: "(case afterDetection w g s of (Pending s2, st2) \<Rightarrow> continue w s2 st2 | r \<Rightarrow> r)
      = runToCompletion w (afterDetection w g s)" for g s
    by (subst (1 2) afterDetection_split) (simp add: run_merged split: option.splits)
  show ?thesis
    by (simp add: runToCompletion_def [of w "(Pending (AwaitingDetector d), st)"] continue_def step
        split: option.splits settle.splits)
qed


lemma enter_eq:
  "initMetrics_enter w st =
     (case detect w of
        Inl e \<Rightarrow> (Rejected e, checkKubernetes w (logger Debug ''initializing metrics'' st))
      | Inr d \<Rightarrow>
          (case detectorWait w of
             None \<Rightarrow>
               afterDetection w d
                 (emit Detect
                   (checkKubernetes w (logger Debug ''initializing metrics'' st)
                      \<lparr>gcpResources := Some d\<rparr>))
           | Some x \<Rightarrow>
               (Pending (AwaitingDetector d),
                emit AwaitDetector
                  (emit Detect
                    (checkKubernetes w (logger Debug ''initializing metrics'' st)
                       \<lparr>gcpResources := Some d\<rparr>)))))"
  by (simp add: initMetrics_enter_def Let_def split: sum.splits option.splits)

text \<open>
  Every run, up to the merge: the detector throws, its await rejects or hangs, or the
  detected resource \<open>g\<close> reaches the Cloud Functions branch in a state \<open>sB\<close>.
\<close>

lemma startup_paths [consumes 0, case_names detectThrows detectorRejects detectorNever detected]:
  fixes w :: world
  defines "s0 \<equiv> checkKubernetes w (logger Debug ''initializing metrics'' initialState)"
  obtains
    (detectThrows) e where
      "detect w = Inl e"
      "startup w = (Rejected e, onRejected e (registerHandler s0))"
  | (detectorRejects) d e where
      "detect w = Inr d" "detectorWait w = Some (Rejects e)"
      "startup w = (Rejected e, onRejected e (registerHandler
          (emit AwaitDetector (emit Detect (s0\<lparr>gcpResources := Some d\<rparr>)))))"
  | (detectorNever) d where
      "detect w = Inr d" "detectorWait w = Some Never"
      "startup w = (Stuck (AwaitingDetector d), registerHandler
          (emit AwaitDetector (emit Detect (s0\<lparr>gcpResources := Some d\<rparr>))))"
  | (detected) d g s1 sB where
      "detect w = Inr d"
      "detectorWait w = None \<and> g = d
         \<and> s1 = emit Detect (s0\<lparr>gcpResources := Some d\<rparr>)
         \<and> sB = registerHandler (snd (afterDetection w g s1))
       \<or> detectorWait w = Some Resolves \<and> g = settled d
         \<and> s1 = emit DetectorSettled
             (registerHandler (emit AwaitDetector (emit Detect (s0\<lparr>gcpResources := Some d\<rparr>)))
                \<lparr>gcpResources := Some g\<rparr>)
         \<and> sB = snd (afterDetection w g s1)"
      "startup w =
         (case mergeCall w of
            Some e \<Rightarrow> (Rejected e, onRejected e sB)
          | None \<Rightarrow>
              settlePromise (continue w
                (AwaitingMerged (merge g (newResource (RESOURCE_ATTRIBUTES sB)))) sB))"
proof (cases "detect w")
  case (Inl e)
  then have "startup w = (Rejected e, onRejected e (registerHandler s0))"
    by (simp add: startup_def moduleLoad_def enter_eq settlePromise_def s0_def)
  with Inl show ?thesis using detectThrows by blast
next
  case (Inr d)
  show ?thesis
  proof (cases "detectorWait w")
    case None
    define s1 where "s1 = emit Detect (s0\<lparr>gcpResources := Some d\<rparr>)"
    define sB where "sB = registerHandler (snd (afterDetection w d s1))"
    have "startup w =
         (case mergeCall w of
            Some e \<Rightarrow> (Rejected e, onRejected e sB)
          | None \<Rightarrow>
              settlePromise (continue w
                (AwaitingMerged (merge d (newResource (RESOURCE_ATTRIBUTES sB)))) sB))"
      using Inr None
      apply (simp add: startup_def moduleLoad_def enter_eq s0_def [symmetric] s1_def [symmetric])
      apply (subst afterDetection_split)
      apply (simp add: sB_def run_merged settlePromise_def split: option.splits)
      done
    with Inr None s1_def sB_def show ?thesis using detected [of d d s1 sB] by blast
  next
    case (Some x)
    show ?thesis
    proof (cases x)
      case Resolves
      define g where "g = settled d"
      define s1 where "s1 = emit DetectorSettled
             (registerHandler (emit AwaitDetector (emit Detect (s0\<lparr>gcpResources := Some d\<rparr>)))
                \<lparr>gcpResources := Some g\<rparr>)"
      define sB where "sB = snd (afterDetection w g s1)"
      have "startup w =
         (case mergeCall w of
            Some e \<Rightarrow> (Rejected e, onRejected e sB)
          | None \<Rightarrow>
              settlePromise (continue w
                (AwaitingMerged (merge g (newResource (RESOURCE_ATTRIBUTES sB)))) sB))"
        using Inr Some Resolves
        by (simp add: startup_def moduleLoad_def enter_eq s0_def [symmetric] run_detector
            g_def [symmetric] s1_def [symmetric] run_afterDetection sB_def settlePromise_def
            split: option.splits)
      with Inr Some Resolves g_def s1_def sB_def show ?thesis
        using detected [of d g s1 sB] by blast
    next
      case (Rejects e)
      with Inr Some have "startup w = (Rejected e, onRejected e (registerHandler
          (emit AwaitDetector (emit Detect (s0\<lparr>gcpResources := Some d\<rparr>)))))"
        by (simp add: startup_def moduleLoad_def enter_eq s0_def run_detector settlePromise_def)
      with Inr Some Rejects show ?thesis using detectorRejects by blast
    next
      case Never
      with Inr Some have "startup w = (Stuck (AwaitingDetector d), registerHandler
          (emit AwaitDetector (emit Detect (s0\<lparr>gcpResources := Some d\<rparr>))))"
        by (simp add: startup_def moduleLoad_def enter_eq s0_def run_detector settlePromise_def)
      with Inr Some Never show ?thesis using detectorNever by blast
    qed
  qed
qed

lemma checkKubernetes_attrs_cong:
  "RESOURCE_ATTRIBUTES st = RESOURCE_ATTRIBUTES st' \<Longrightarrow>
   RESOURCE_ATTRIBUTES (checkKubernetes w st) = RESOURCE_ATTRIBUTES (checkKubernetes w st')"
  by (simp add: checkKubernetes_attrs split: option.splits)

lemma checkCloudFunctions_attrs_cong:
  "RESOURCE_ATTRIBUTES st = RESOURCE_ATTRIBUTES st' \<Longrightarrow>
   RESOURCE_ATTRIBUTES (checkCloudFunctions w g st) =
   RESOURCE_ATTRIBUTES (checkCloudFunctions w g st')"
  by (simp add: checkCloudFunctions_attrs split: option.splits)

lemma afterDetection_trace_subset:
  "set (trace (checkCloudFunctions w g st)) \<subseteq> set (trace (snd (afterDetection w g st)))"
  by (auto simp: afterDetection_def Let_def split: option.splits)

text \<open>The state at line 64, after the Kubernetes branch.\<close>

lemma line64_trace:
  "\<exists>k. trace (checkKubernetes w (logger Debug ''initializing metrics'' initialState)) =
         Log Debug (Text ''initializing metrics'') # EnvRead ''KUBERNETES_SERVICE_HOST'' # k
       \<and> list_all emitsK8s k"
  using checkKubernetes_trace [of w "logger Debug ''initializing metrics'' initialState"]
  by (simp add: initialState_def)

lemma startup_cases [consumes 0, case_names detectThrows detectorRejects detectorNever detected]:
  fixes w :: world
  defines "s0 \<equiv> checkKubernetes w (logger Debug ''initializing metrics'' initialState)"
  obtains
    (detectThrows) e where
      "detect w = Inl e"
      "startup w = (Rejected e, onRejected e (registerHandler s0))"
  | (detectorRejects) d e where
      "detect w = Inr d" "detectorWait w = Some (Rejects e)"
      "startup w = (Rejected e, onRejected e (registerHandler
          (emit AwaitDetector (emit Detect (s0\<lparr>gcpResources := Some d\<rparr>)))))"
  | (detectorNever) d where
      "detect w = Inr d" "detectorWait w = Some Never"
      "startup w = (Stuck (AwaitingDetector d), registerHandler
          (emit AwaitDetector (emit Detect (s0\<lparr>gcpResources := Some d\<rparr>))))"
  | (detected) d g u sB pre res where
      "detect w = Inr d"
      "detectorWait w = None \<and> g = d \<or> detectorWait w = Some Resolves \<and> g = settled d"
      "gcpResources sB = Some g"
      "RESOURCE_ATTRIBUTES sB = explicitAttributes w g"
      "resources sB =
         (case mergeCall w of
            None \<Rightarrow> Some (merge g (newResource (explicitAttributes w g)))
          | Some e \<Rightarrow> None)"
      "counters sB = Map.empty" "requestCounter sB = None" "backgroundCounter sB = None"
      "trace sB = trace s0 @ pre
         @ [RegisterHttp ''handleHttpReq'', Log Info (Text ''HTTP handler ready.'')] @ res"
      "list_all emitsResolve pre" "list_all emitsResolve res"
      "set (trace (checkCloudFunctions w g u)) \<subseteq> set (trace sB)"
      "startup w =
         (case mergeCall w of
            Some e \<Rightarrow> (Rejected e, onRejected e sB)
          | None \<Rightarrow>
              settlePromise (continue w
                (AwaitingMerged (merge g (newResource (explicitAttributes w g)))) sB))"
      "Detect \<in> set pre"
proof (cases w rule: startup_paths)
  case (detectThrows e)
  then show ?thesis using that(1) by (simp add: s0_def)
next
  case (detectorRejects d e)
  then show ?thesis using that(2) by (simp add: s0_def)
next
  case (detectorNever d)
  then show ?thesis using that(3) by (simp add: s0_def)
next
  case (detected d g s1 sB)
  note paths = detected(2)
  have "RESOURCE_ATTRIBUTES s0 = RESOURCE_ATTRIBUTES (checkKubernetes w initialState)"
    unfolding s0_def by (rule checkKubernetes_attrs_cong) simp
  moreover have "resources s0 = None" "counters s0 = Map.empty"
    "requestCounter s0 = None" "backgroundCounter s0 = None"
    by (simp_all add: s0_def initialState_def)
  ultimately have s0_fields:
    "RESOURCE_ATTRIBUTES s0 = RESOURCE_ATTRIBUTES (checkKubernetes w initialState)"
    "resources s0 = None" "counters s0 = Map.empty"
    "requestCounter s0 = None" "backgroundCounter s0 = None"
    by simp_all
  have s1_fields: "RESOURCE_ATTRIBUTES s1 = RESOURCE_ATTRIBUTES (checkKubernetes w initialState)"
    "resources s1 = None" "counters s1 = Map.empty"
    "requestCounter s1 = None" "backgroundCounter s1 = None" "gcpResources s1 = Some g"
    using paths s0_fields unfolding s0_def [symmetric] by auto
  have attrs: "RESOURCE_ATTRIBUTES (checkCloudFunctions w g s1) = explicitAttributes w g"
    unfolding explicitAttributes_def
    by (rule checkCloudFunctions_attrs_cong) (simp add: s1_fields)
  have sB_fields: "gcpResources sB = Some g"
      "RESOURCE_ATTRIBUTES sB = explicitAttributes w g"
      "resources sB =
         (case mergeCall w of
            None \<Rightarrow> Some (merge g (newResource (explicitAttributes w g)))
          | Some e \<Rightarrow> None)"
      "counters sB = Map.empty" "requestCounter sB = None" "backgroundCounter sB = None"
    using paths s1_fields attrs
    by (auto simp: afterDetection_resources split: option.splits)
  obtain es where es: "trace (snd (afterDetection w g s1)) = trace s1 @ EnvRead ''FUNCTION_TARGET'' # es"
    "list_all emitsResolve es"
    using afterDetection_trace by blast
  have "\<exists>pre res. trace sB = trace s0 @ pre
         @ [RegisterHttp ''handleHttpReq'', Log Info (Text ''HTTP handler ready.'')] @ res
       \<and> list_all emitsResolve pre \<and> list_all emitsResolve res \<and> Detect \<in> set pre"
  proof -
    from paths consider
      (sync) "s1 = emit Detect (s0\<lparr>gcpResources := Some d\<rparr>)"
        "sB = registerHandler (snd (afterDetection w g s1))"
    | (await) "s1 = emit DetectorSettled
             (registerHandler (emit AwaitDetector (emit Detect (s0\<lparr>gcpResources := Some d\<rparr>)))
                \<lparr>gcpResources := Some g\<rparr>)"
        "sB = snd (afterDetection w g s1)"
      using s0_def by blast
    then show ?thesis
    proof cases
      case sync
      have "trace sB = trace s0 @ (Detect # EnvRead ''FUNCTION_TARGET'' # es)
         @ [RegisterHttp ''handleHttpReq'', Log Info (Text ''HTTP handler ready.'')] @ []"
        using es(1) by (simp add: sync)
      moreover have "list_all emitsResolve (Detect # EnvRead ''FUNCTION_TARGET'' # es)"
        using es(2) by simp
      moreover have "list_all emitsResolve []"
        "Detect \<in> set (Detect # EnvRead ''FUNCTION_TARGET'' # es)"
        by simp_all
      ultimately show ?thesis by blast
    next
      case await
      have "trace sB = trace s0 @ [Detect, AwaitDetector]
         @ [RegisterHttp ''handleHttpReq'', Log Info (Text ''HTTP handler ready.'')]
         @ (DetectorSettled # EnvRead ''FUNCTION_TARGET'' # es)"
        using es(1) by (simp add: await)
      moreover have "list_all emitsResolve [Detect, AwaitDetector]"
        "list_all emitsResolve (DetectorSettled # EnvRead ''FUNCTION_TARGET'' # es)"
        "Detect \<in> set [Detect, AwaitDetector]"
        using es(2) by simp_all
      ultimately show ?thesis by blast
    qed
  qed
  then obtain pre res where tr: "trace sB = trace s0 @ pre
         @ [RegisterHttp ''handleHttpReq'', Log Info (Text ''HTTP handler ready.'')] @ res"
       "list_all emitsResolve pre" "list_all emitsResolve res" "Detect \<in> set pre"
    by blast
  have sub: "set (trace (checkCloudFunctions w g s1)) \<subseteq> set (trace sB)"
    using paths afterDetection_trace_subset [of w g s1] by auto
  have g: "detectorWait w = None \<and> g = d \<or> detectorWait w = Some Resolves \<and> g = settled d"
    using paths by blast
  have final: "startup w =
         (case mergeCall w of
            Some e \<Rightarrow> (Rejected e, onRejected e sB)
          | None \<Rightarrow>
              settlePromise (continue w
                (AwaitingMerged (merge g (newResource (explicitAttributes w g)))) sB))"
    using detected(3) sB_fields(2) by (simp split: option.splits)
  show ?thesis
    using that(4) [OF detected(1) g sB_fields tr(1-3) [unfolded s0_def [symmetric]] sub final tr(4)]
    by (simp add: s0_def)
qed

text \<open>Every run from the await of the merged resource on.\<close>

lemma merged_cases [consumes 0, case_names mergedRejects mergedNever fulfilled bootstrapFails]:
  fixes w :: world and r :: resource and st :: state
  defines "sM \<equiv> emit MergedSettled (st\<lparr>resources := Some (settled r)\<rparr>)"
  obtains
    (mergedRejects) e where
      "mergedWait w = Rejects e"
      "settlePromise (continue w (AwaitingMerged r) st) = (Rejected e, onRejected e st)"
  | (mergedNever)
      "mergedWait w = Never"
      "settlePromise (continue w (AwaitingMerged r) st) = (Stuck (AwaitingMerged r), st)"
  | (fulfilled)
      "mergedWait w = Resolves"
      "fst (afterMerged w (settled r) sM) = Fulfilled"
      "settlePromise (continue w (AwaitingMerged r) st) =
         (Fulfilled, onFulfilled (snd (afterMerged w (settled r) sM)))"
  | (bootstrapFails) e where
      "mergedWait w = Resolves"
      "fst (afterMerged w (settled r) sM) = Rejected e"
      "settlePromise (continue w (AwaitingMerged r) st) =
         (Rejected e, onRejected e (snd (afterMerged w (settled r) sM)))"
proof (cases "mergedWait w")
  case Resolves
  show ?thesis
  proof (cases rule: afterMerged_cases [of w "settled r" sM])
    case ok
    with Resolves show ?thesis
      using fulfilled by (simp add: continue_merged settlePromise_alt sM_def)
  next
    case (failed e)
    with Resolves show ?thesis
      using bootstrapFails [of e] by (simp add: continue_merged settlePromise_alt sM_def)
  qed
next
  case (Rejects e)
  then show ?thesis using mergedRejects by (simp add: continue_merged settlePromise_def)
next
  case Never
  then show ?thesis using mergedNever by (simp add: continue_merged settlePromise_def)
qed

subsection \<open>The shape of every trace\<close>

lemma afterMerged_provider:
  "trace (snd (afterMerged w r st)) = trace st @ bs \<Longrightarrow> NewMeterProvider r' \<in> set bs \<Longrightarrow> r' = r"
  by (auto simp: afterMerged_def Let_def split: option.splits)

lemma trace_shape:
  obtains k pre res boot where
    "trace (checkKubernetes w (logger Debug ''initializing metrics'' initialState)) =
       Log Debug (Text ''initializing metrics'') # EnvRead ''KUBERNETES_SERVICE_HOST'' # k"
    "trace (snd (startup w)) =
       Log Debug (Text ''initializing metrics'') # EnvRead ''KUBERNETES_SERVICE_HOST'' # k
       @ pre @ [RegisterHttp ''handleHttpReq'', Log Info (Text ''HTTP handler ready.'')]
       @ res @ boot
       @ finalEvents (fst (startup w))"
    "list_all emitsK8s k" "list_all emitsResolve pre" "list_all emitsResolve res"
    "boot = [] \<or> (\<exists>bs. boot = MergedSettled # bs \<and> list_all emitsBoot bs)"
    "\<forall>r. NewMeterProvider r \<in> set boot \<longrightarrow> resources (snd (startup w)) = Some r"
proof -
  define s0 where "s0 = checkKubernetes w (logger Debug ''initializing metrics'' initialState)"
  obtain k where k: "trace s0 =
      Log Debug (Text ''initializing metrics'') # EnvRead ''KUBERNETES_SERVICE_HOST'' # k"
    "list_all emitsK8s k"
    using line64_trace [of w] unfolding s0_def by blast
  let ?reg = "[RegisterHttp ''handleHttpReq'', Log Info (Text ''HTTP handler ready.'')]"
  have nil: "list_all emitsResolve []" by simp
  have noboot: "([]::event list) = [] \<or> (\<exists>bs. [] = MergedSettled # bs \<and> list_all emitsBoot bs)"
    "\<forall>r. NewMeterProvider r \<in> set [] \<longrightarrow> resources (snd (startup w)) = Some r"
    by simp_all
  note k0 = k(1) [unfolded s0_def]
  show ?thesis
  proof (cases w rule: startup_cases)
    case (detectThrows e)
    then have "trace (snd (startup w)) =
       Log Debug (Text ''initializing metrics'') # EnvRead ''KUBERNETES_SERVICE_HOST'' # k
       @ [] @ ?reg @ [] @ []
       @ finalEvents (fst (startup w))"
      using k0 by simp
    then show ?thesis using that [OF k0 _ k(2) nil nil noboot] by blast
  next
    case (detectorRejects d e)
    then have "trace (snd (startup w)) =
       Log Debug (Text ''initializing metrics'') # EnvRead ''KUBERNETES_SERVICE_HOST'' # k
       @ [Detect, AwaitDetector] @ ?reg @ [] @ []
       @ finalEvents (fst (startup w))"
      using k0 by simp
    moreover have "list_all emitsResolve [Detect, AwaitDetector]" by simp
    ultimately show ?thesis using that [OF k0 _ k(2) _ nil noboot] by blast
  next
    case (detectorNever d)
    then have "trace (snd (startup w)) =
       Log Debug (Text ''initializing metrics'') # EnvRead ''KUBERNETES_SERVICE_HOST'' # k
       @ [Detect, AwaitDetector] @ ?reg @ [] @ []
       @ finalEvents (fst (startup w))"
      using k0 by simp
    moreover have "list_all emitsResolve [Detect, AwaitDetector]" by simp
    ultimately show ?thesis using that [OF k0 _ k(2) _ nil noboot] by blast
  next
    case (detected d g u sB pre res)
    have sB: "trace sB =
       Log Debug (Text ''initializing metrics'') # EnvRead ''KUBERNETES_SERVICE_HOST'' # k
       @ pre @ ?reg @ res"
      using detected(9) k0 by simp
    note cls = k(2) detected(10,11)
    show ?thesis
    proof (cases "mergeCall w")
      case (Some e)
      with detected(13) sB have "trace (snd (startup w)) =
         Log Debug (Text ''initializing metrics'') # EnvRead ''KUBERNETES_SERVICE_HOST'' # k
         @ pre @ ?reg @ res @ []
         @ finalEvents (fst (startup w))"
        by simp
      then show ?thesis using that [OF k0 _ cls noboot] by blast
    next
      case None
      let ?r = "merge g (newResource (explicitAttributes w g))"
      let ?sM = "emit MergedSettled (sB\<lparr>resources := Some (settled ?r)\<rparr>)"
      from None detected(13)
      have run: "startup w = settlePromise (continue w (AwaitingMerged ?r) sB)"
        by simp
      obtain bs where bs: "trace (snd (afterMerged w (settled ?r) ?sM)) = trace ?sM @ bs"
        "list_all emitsBoot bs"
        using afterMerged_trace [of "settled ?r" w ?sM] by auto
      have prov: "\<forall>r. NewMeterProvider r \<in> set (MergedSettled # bs) \<longrightarrow>
          resources (snd (afterMerged w (settled ?r) ?sM)) = Some r"
        using afterMerged_provider [OF bs(1)] by auto
      have boot: "MergedSettled # bs = [] \<or>
          (\<exists>bs'. MergedSettled # bs = MergedSettled # bs' \<and> list_all emitsBoot bs')"
        using bs(2) by simp
      show ?thesis
      proof (cases rule: merged_cases [of w ?r sB])
        case (mergedRejects e)
        with run sB have "trace (snd (startup w)) =
           Log Debug (Text ''initializing metrics'') # EnvRead ''KUBERNETES_SERVICE_HOST'' # k
           @ pre @ ?reg @ res @ []
           @ finalEvents (fst (startup w))"
          by simp
        then show ?thesis using that [OF k0 _ cls noboot] by blast
      next
        case mergedNever
        with run sB have "trace (snd (startup w)) =
           Log Debug (Text ''initializing metrics'') # EnvRead ''KUBERNETES_SERVICE_HOST'' # k
           @ pre @ ?reg @ res @ []
           @ finalEvents (fst (startup w))"
          by simp
        then show ?thesis using that [OF k0 _ cls noboot] by blast
      next
        case fulfilled
        with run sB bs(1) have "trace (snd (startup w)) =
           Log Debug (Text ''initializing metrics'') # EnvRead ''KUBERNETES_SERVICE_HOST'' # k
           @ pre @ ?reg @ res @ (MergedSettled # bs)
           @ finalEvents (fst (startup w))"
          by simp
        moreover have "\<forall>r. NewMeterProvider r \<in> set (MergedSettled # bs) \<longrightarrow>
            resources (snd (startup w)) = Some r"
          using prov run fulfilled by simp
        ultimately show ?thesis using that [OF k0 _ cls boot] by blast
      next
        case (bootstrapFails e)
        with run sB bs(1) have "trace (snd (startup w)) =
           Log Debug (Text ''initializing metrics'') # EnvRead ''KUBERNETES_SERVICE_HOST'' # k
           @ pre @ ?reg @ res @ (MergedSettled # bs)
           @ finalEvents (fst (startup w))"
          by simp
        moreover have "\<forall>r. NewMeterProvider r \<in> set (MergedSettled # bs) \<longrightarrow>
            resources (snd (startup w)) = Some r"
          using prov run bootstrapFails by simp
        ultimately show ?thesis using that [OF k0 _ cls boot] by blast
      qed
    qed
  qed
qed

subsection \<open>Order of events\<close>

lemma precededBy_quiet: "list_all (\<lambda>e. \<not> Q e) xs \<Longrightarrow> precededBy P Q xs"
  by (induction xs) simp_all

lemma precededBy_append:
  "list_all (\<lambda>e. \<not> Q e) xs \<Longrightarrow> precededBy P Q ys \<Longrightarrow> precededBy P Q (xs @ ys)"
  by (induction xs) simp_all

lemma k8s_not_bootstrap: "emitsK8s e \<Longrightarrow> \<not> isBootstrap e"
  by (cases e) simp_all

lemma resolve_not_bootstrap: "emitsResolve e \<Longrightarrow> \<not> isBootstrap e"
  by (cases e) simp_all

lemma k8s_providerResolved: "emitsK8s e \<Longrightarrow> providerResolved e"
  by (cases e) simp_all

lemma resolve_providerResolved: "emitsResolve e \<Longrightarrow> providerResolved e"
  by (cases e) simp_all

lemma boot_providerResolved: "emitsBoot e \<Longrightarrow> providerResolved e"
  by (cases e) simp_all

lemma finalEvents_providerResolved: "list_all providerResolved (finalEvents p)"
  by (cases p) simp_all

lemma k8s_not_detection: "emitsK8s e \<Longrightarrow> \<not> isDetection e"
  by (cases e) simp_all

lemma resolve_not_orchestration: "emitsResolve e \<Longrightarrow> \<not> isOrchestration e"
  by (cases e) (auto simp: SEMRESATTRS_CLOUD_PLATFORM_def SEMRESATTRS_SERVICE_INSTANCE_ID_def
      SEMRESATTRS_K8S_POD_NAME_def)

lemma boot_not_orchestration: "emitsBoot e \<Longrightarrow> \<not> isOrchestration e"
  by (cases e) simp_all

lemma finalEvents_not_orchestration: "list_all (\<lambda>e. \<not> isOrchestration e) (finalEvents p)"
  by (cases p) simp_all

lemma k8s_not_completion: "emitsK8s e \<Longrightarrow> \<not> isCompletion e"
  by (cases e) simp_all

lemma resolve_not_completion: "emitsResolve e \<Longrightarrow> \<not> isCompletion e"
  by (cases e) simp_all

lemma dropWhile_quiet:
  "list_all (\<lambda>e. \<not> D e) xs \<Longrightarrow> dropWhile (\<lambda>e. \<not> D e) (xs @ ys) = dropWhile (\<lambda>e. \<not> D e) ys"
  by (induction xs) simp_all

lemma list_all_dropWhile: "list_all C xs \<Longrightarrow> list_all C (dropWhile P xs)"
  by (metis list_all_append takeWhile_dropWhile_id)

subsection \<open>The state at the end of a run\<close>

lemma afterMerged_trace_subset:
  "set (trace st) \<subseteq> set (trace (snd (afterMerged w r st)))"
  by (auto simp: afterMerged_def Let_def split: option.splits)

lemma afterMerged_Rejected:
  "fst (afterMerged w r st) = Rejected e \<Longrightarrow>
     backgroundCounter (snd (afterMerged w r st)) = backgroundCounter st \<and>
     (counters (snd (afterMerged w r st)) = counters st \<and>
        requestCounter (snd (afterMerged w r st)) = requestCounter st
      \<or> counters (snd (afterMerged w r st)) = (counters st)(REQUEST_COUNTER \<mapsto> []) \<and>
        requestCounter (snd (afterMerged w r st)) = Some REQUEST_COUNTER \<and>
        createCounter w REQUEST_COUNTER = None \<and>
        createCounter w BACKGROUND_COUNTER = Some e)"
  by (auto simp: afterMerged_def Let_def split: option.splits)

text \<open>What the last stretch, from the await of the merged resource on, leaves behind.\<close>

lemma tail_fields:
  fixes w r st
  defines "fin \<equiv> snd (settlePromise (continue w (AwaitingMerged r) st))"
  shows "gcpResources fin = gcpResources st"
    and "RESOURCE_ATTRIBUTES fin = RESOURCE_ATTRIBUTES st"
    and "resources fin = (if mergedWait w = Resolves then Some (settled r) else resources st)"
    and "set (trace st) \<subseteq> set (trace fin)"
proof -
  have "gcpResources fin = gcpResources st \<and> RESOURCE_ATTRIBUTES fin = RESOURCE_ATTRIBUTES st
    \<and> resources fin = (if mergedWait w = Resolves then Some (settled r) else resources st)
    \<and> set (trace st) \<subseteq> set (trace fin)"
  proof (cases rule: merged_cases [of w r st])
    case (mergedRejects e)
    then show ?thesis by (auto simp: fin_def)
  next
    case mergedNever
    then show ?thesis by (auto simp: fin_def)
  next
    case fulfilled
    then show ?thesis
      using afterMerged_trace_subset
        [of "emit MergedSettled (st\<lparr>resources := Some (settled r)\<rparr>)" w "settled r"]
      by (auto simp: fin_def)
  next
    case (bootstrapFails e)
    then show ?thesis
      using afterMerged_trace_subset
        [of "emit MergedSettled (st\<lparr>resources := Some (settled r)\<rparr>)" w "settled r"]
      by (auto simp: fin_def)
  qed
  then show "gcpResources fin = gcpResources st"
    and "RESOURCE_ATTRIBUTES fin = RESOURCE_ATTRIBUTES st"
    and "resources fin = (if mergedWait w = Resolves then Some (settled r) else resources st)"
    and "set (trace st) \<subseteq> set (trace fin)"
    by simp_all
qed

text \<open>
  Whenever a run has a merged resource, it is the merge of the detected resource with the
  explicit attributes, settled exactly when its await resolved.
\<close>

lemma identity_final:
  assumes "resources (snd (startup w)) = Some r"
  obtains d g where
    "detect w = Inr d"
    "detectorWait w = None \<and> g = d \<or> detectorWait w = Some Resolves \<and> g = settled d"
    "gcpResources (snd (startup w)) = Some g"
    "RESOURCE_ATTRIBUTES (snd (startup w)) = explicitAttributes w g"
    "r = (if mergedWait w = Resolves
          then settled (merge g (newResource (explicitAttributes w g)))
          else merge g (newResource (explicitAttributes w g)))"
proof (cases w rule: startup_cases)
  case (detectThrows e)
  with assms show ?thesis by (simp add: initialState_def)
next
  case (detectorRejects d e)
  with assms show ?thesis by (simp add: initialState_def)
next
  case (detectorNever d)
  with assms show ?thesis by (simp add: initialState_def)
next
  case (detected d g u sB pre res)
  show ?thesis
  proof (cases "mergeCall w")
    case (Some e)
    with detected assms show ?thesis by simp
  next
    case None
    with detected(13)
    have run: "startup w = settlePromise (continue w
        (AwaitingMerged (merge g (newResource (explicitAttributes w g)))) sB)"
      by simp
    have "gcpResources (snd (startup w)) = Some g"
      "RESOURCE_ATTRIBUTES (snd (startup w)) = explicitAttributes w g"
      "resources (snd (startup w)) =
         (if mergedWait w = Resolves
          then Some (settled (merge g (newResource (explicitAttributes w g))))
          else Some (merge g (newResource (explicitAttributes w g))))"
      unfolding run using detected(3,4,5) None by (simp_all add: tail_fields)
    with assms show ?thesis using that [OF detected(1,2)] by (simp split: if_splits)
  qed
qed

lemma identity_exists:
  assumes "detect w = Inr d" "detectorWait w = None \<or> detectorWait w = Some Resolves"
    "mergeCall w = None"
  shows "\<exists>r. resources (snd (startup w)) = Some r"
proof (cases w rule: startup_cases)
  case (detected d g u sB pre res)
  with assms(3)
  have run: "startup w = settlePromise (continue w
      (AwaitingMerged (merge g (newResource (explicitAttributes w g)))) sB)"
    by simp
  show ?thesis
    unfolding run using detected(5) assms(3) by (simp add: tail_fields)
qed (use assms in auto)

text \<open>A provider is only ever constructed with the merged resource of the run.\<close>

lemma provider_identity:
  assumes "NewMeterProvider r \<in> set (trace (snd (startup w)))"
  shows "resources (snd (startup w)) = Some r"
proof -
  obtain k pre res boot where
    tr: "trace (snd (startup w)) =
       Log Debug (Text ''initializing metrics'') # EnvRead ''KUBERNETES_SERVICE_HOST'' # k
       @ pre @ [RegisterHttp ''handleHttpReq'', Log Info (Text ''HTTP handler ready.'')]
       @ res @ boot @ finalEvents (fst (startup w))"
    and cls: "list_all emitsK8s k" "list_all emitsResolve pre" "list_all emitsResolve res"
    and prov: "\<forall>r. NewMeterProvider r \<in> set boot \<longrightarrow> resources (snd (startup w)) = Some r"
    by (rule trace_shape [of w])
  have "NewMeterProvider r \<notin> set k" "NewMeterProvider r \<notin> set pre" "NewMeterProvider r \<notin> set res"
    using cls by (auto simp: list_all_iff)
  moreover have "NewMeterProvider r \<notin> set (finalEvents (fst (startup w)))"
    by (cases "fst (startup w)") simp_all
  ultimately have "NewMeterProvider r \<in> set boot"
    using assms unfolding tr by auto
  with prov show ?thesis by blast
qed

subsection \<open>The explicit attributes\<close>

lemma explicit_static:
  "explicitAttributes w g SEMRESATTRS_SERVICE_NAMESPACE = Some ''nielm''"
  "explicitAttributes w g SEMRESATTRS_SERVICE_NAME = Some ''counters-test''"
  "explicitAttributes w g SEMRESATTRS_SERVICE_VERSION = Some ''1.0.0''"
  by (simp_all add: explicitAttributes_def checkCloudFunctions_attrs checkKubernetes_attrs
      initialState_def SEMRESATTRS_SERVICE_NAMESPACE_def SEMRESATTRS_SERVICE_NAME_def
      SEMRESATTRS_SERVICE_VERSION_def SEMRESATTRS_K8S_POD_NAME_def
      SEMRESATTRS_CLOUD_PLATFORM_def SEMRESATTRS_SERVICE_INSTANCE_ID_def
      split: option.splits)

lemma explicit_platform:
  "explicitAttributes w g SEMRESATTRS_CLOUD_PLATFORM =
     (if truthy (env w ''FUNCTION_TARGET'') \<and> truthy (env w ''USE_OTEL_GCF_WORKAROUND'')
      then Some ''generic_task'' else None)"
  by (simp add: explicitAttributes_def checkCloudFunctions_attrs checkKubernetes_attrs
      initialState_def SEMRESATTRS_SERVICE_NAMESPACE_def SEMRESATTRS_SERVICE_NAME_def
      SEMRESATTRS_SERVICE_VERSION_def SEMRESATTRS_K8S_POD_NAME_def
      SEMRESATTRS_CLOUD_PLATFORM_def SEMRESATTRS_SERVICE_INSTANCE_ID_def
      split: option.splits)


lemma explicit_pod_name:
  "explicitAttributes w g SEMRESATTRS_K8S_POD_NAME =
     (if truthy (env w ''KUBERNETES_SERVICE_HOST'') \<and> truthy (env w ''K8S_POD_NAME'')
      then env w ''K8S_POD_NAME'' else None)"
  by (simp add: explicitAttributes_def checkCloudFunctions_attrs checkKubernetes_attrs
      initialState_def SEMRESATTRS_SERVICE_NAMESPACE_def SEMRESATTRS_SERVICE_NAME_def
      SEMRESATTRS_SERVICE_VERSION_def SEMRESATTRS_K8S_POD_NAME_def
      SEMRESATTRS_CLOUD_PLATFORM_def SEMRESATTRS_SERVICE_INSTANCE_ID_def truthy_def
      split: option.splits)

text \<open>An explicit key wins in the merged resource, pending or settled.\<close>

lemma explicit_wins:
  assumes "resources (snd (startup w)) = Some r" "gcpResources (snd (startup w)) = Some g"
    "explicitAttributes w g k = Some v"
  shows "attributesOf r k = Some (StrV v)"
proof -
  obtain g' where g': "gcpResources (snd (startup w)) = Some g'"
    "r = (if mergedWait w = Resolves
          then settled (merge g' (newResource (explicitAttributes w g')))
          else merge g' (newResource (explicitAttributes w g')))"
    using identity_final [OF assms(1)] by metis
  with assms(2) have "g' = g" by simp
  with g'(2) assms(3) show ?thesis
    by (simp add: attributesOf_merge attributesOf_settled_merge)
qed

subsection \<open>Runs in which every call returns\<close>

lemma quiet_fields [simp]:
  "env (quietWorld e a) = e"
  "detect (quietWorld e a) =
     Inr \<lparr>syncAttributes = Map.empty, asyncAttributes = Some a, asyncAttributesPending = True\<rparr>"
  "detectorWait (quietWorld e a) = Some Resolves"
  "mergeCall (quietWorld e a) = None"
  "mergedWait (quietWorld e a) = Resolves"
  "newExporter (quietWorld e a) = None"
  "newReader (quietWorld e a) = None"
  "newMeterProvider (quietWorld e a) = None"
  "getMeter (quietWorld e a) = None"
  "createCounter (quietWorld e a) n = None"
  by (simp_all add: quietWorld_def)

text \<open>
  When the detector returns, its await resolves (or there is none to await) and the merge
  returns, the run has a detected and a merged resource.
\<close>

lemma identity_of_run:
  assumes "detect w = Inr d" "detectorWait w = Some Resolves" "mergeCall w = None"
  shows "gcpResources (snd (startup w)) = Some (settled d)"
    and "resources (snd (startup w)) =
      Some (if mergedWait w = Resolves
            then settled (merge (settled d) (newResource (explicitAttributes w (settled d))))
            else merge (settled d) (newResource (explicitAttributes w (settled d))))"
proof -
  obtain r where r: "resources (snd (startup w)) = Some r"
    using identity_exists [of w d] assms by blast
  obtain d' g where g: "detect w = Inr d'"
    "detectorWait w = None \<and> g = d' \<or> detectorWait w = Some Resolves \<and> g = settled d'"
    "gcpResources (snd (startup w)) = Some g"
    "r = (if mergedWait w = Resolves
          then settled (merge g (newResource (explicitAttributes w g)))
          else merge g (newResource (explicitAttributes w g)))"
    using identity_final [OF r] by metis
  from g(1,2) assms(1,2) have "g = settled d" by simp
  with g(3,4) r show "gcpResources (snd (startup w)) = Some (settled d)"
    and "resources (snd (startup w)) =
      Some (if mergedWait w = Resolves
            then settled (merge (settled d) (newResource (explicitAttributes w (settled d))))
            else merge (settled d) (newResource (explicitAttributes w (settled d))))"
    by simp_all
qed

lemma quiet_detected: "detectedAttributes (quietWorld e a) k = a k"
  by (simp add: detectedAttributes_def identity_of_run(1) [of "quietWorld e a"]
      attributesOf_def settled_def delivered_def)

lemma quiet_resolved:
  "resolvedIdentity (quietWorld e a) k =
     (case explicitAttributes (quietWorld e a)
        (settled \<lparr>syncAttributes = Map.empty, asyncAttributes = Some a,
                  asyncAttributesPending = True\<rparr>) k of
        Some v \<Rightarrow> Some (StrV v)
      | None \<Rightarrow> a k)"
  by (simp add: resolvedIdentity_def identity_of_run(2) [of "quietWorld e a"]
      attributesOf_settled_merge)
    (simp add: attributesOf_def settled_def delivered_def split: option.splits)

lemma quiet_has_identity: "\<exists>r. resources (snd (startup (quietWorld e a))) = Some r"
  by (simp add: identity_of_run(2) [of "quietWorld e a"])

subsection \<open>The keys are pairwise distinct\<close>

lemma key_neq [simp]:
  "SEMRESATTRS_SERVICE_NAMESPACE \<noteq> SEMRESATTRS_K8S_POD_NAME"
  "SEMRESATTRS_SERVICE_NAMESPACE \<noteq> SEMRESATTRS_CLOUD_PLATFORM"
  "SEMRESATTRS_SERVICE_NAMESPACE \<noteq> SEMRESATTRS_SERVICE_INSTANCE_ID"
  "SEMRESATTRS_SERVICE_NAMESPACE \<noteq> SEMRESATTRS_FAAS_ID"
  "SEMRESATTRS_SERVICE_NAME \<noteq> SEMRESATTRS_K8S_POD_NAME"
  "SEMRESATTRS_SERVICE_NAME \<noteq> SEMRESATTRS_CLOUD_PLATFORM"
  "SEMRESATTRS_SERVICE_NAME \<noteq> SEMRESATTRS_SERVICE_INSTANCE_ID"
  "SEMRESATTRS_SERVICE_NAME \<noteq> SEMRESATTRS_FAAS_ID"
  "SEMRESATTRS_SERVICE_VERSION \<noteq> SEMRESATTRS_K8S_POD_NAME"
  "SEMRESATTRS_SERVICE_VERSION \<noteq> SEMRESATTRS_CLOUD_PLATFORM"
  "SEMRESATTRS_SERVICE_VERSION \<noteq> SEMRESATTRS_SERVICE_INSTANCE_ID"
  "SEMRESATTRS_SERVICE_VERSION \<noteq> SEMRESATTRS_FAAS_ID"
  "SEMRESATTRS_K8S_POD_NAME \<noteq> SEMRESATTRS_CLOUD_PLATFORM"
  "SEMRESATTRS_K8S_POD_NAME \<noteq> SEMRESATTRS_SERVICE_INSTANCE_ID"
  "SEMRESATTRS_K8S_POD_NAME \<noteq> SEMRESATTRS_FAAS_ID"
  "SEMRESATTRS_CLOUD_PLATFORM \<noteq> SEMRESATTRS_SERVICE_INSTANCE_ID"
  "SEMRESATTRS_CLOUD_PLATFORM \<noteq> SEMRESATTRS_FAAS_ID"
  "SEMRESATTRS_SERVICE_INSTANCE_ID \<noteq> SEMRESATTRS_FAAS_ID"
  by (simp_all add: SEMRESATTRS_SERVICE_NAMESPACE_def SEMRESATTRS_SERVICE_NAME_def
      SEMRESATTRS_SERVICE_VERSION_def SEMRESATTRS_K8S_POD_NAME_def
      SEMRESATTRS_CLOUD_PLATFORM_def SEMRESATTRS_SERVICE_INSTANCE_ID_def
      SEMRESATTRS_FAAS_ID_def)

lemmas key_neq' [simp] = key_neq [symmetric]

subsection \<open>Warnings, and how far a run gets\<close>

lemma checkKubernetes_warns:
  "truthy (env w ''KUBERNETES_SERVICE_HOST'') \<Longrightarrow> \<not> truthy (env w ''K8S_POD_NAME'') \<Longrightarrow>
   Log Warn (Text K8S_POD_NAME_WARNING) \<in> set (trace (checkKubernetes w st))"
  by (simp add: checkKubernetes_def Let_def truthy_def split: option.splits)



text \<open>The attribute mapping at the end of a run.\<close>

lemma final_attributes:
  obtains (early) "resources (snd (startup w)) = None"
      "RESOURCE_ATTRIBUTES (snd (startup w)) = RESOURCE_ATTRIBUTES (checkKubernetes w initialState)
       \<or> (\<exists>g. gcpResources (snd (startup w)) = Some g
              \<and> RESOURCE_ATTRIBUTES (snd (startup w)) = explicitAttributes w g)"
  | (late) r g where "resources (snd (startup w)) = Some r"
      "gcpResources (snd (startup w)) = Some g"
      "RESOURCE_ATTRIBUTES (snd (startup w)) = explicitAttributes w g"
proof (cases "resources (snd (startup w))")
  case (Some r)
  then show ?thesis using identity_final [OF Some] late by metis
next
  case None
  have k: "RESOURCE_ATTRIBUTES (checkKubernetes w (logger Debug ''initializing metrics'' initialState))
      = RESOURCE_ATTRIBUTES (checkKubernetes w initialState)"
    by (rule checkKubernetes_attrs_cong) simp
  show ?thesis
  proof (cases w rule: startup_cases)
    case (detectThrows e)
    with None k show ?thesis using early by simp
  next
    case (detectorRejects d e)
    with None k show ?thesis using early by simp
  next
    case (detectorNever d)
    with None k show ?thesis using early by simp
  next
    case (detected d g u sB pre res)
    have "gcpResources (snd (startup w)) = Some g
        \<and> RESOURCE_ATTRIBUTES (snd (startup w)) = explicitAttributes w g"
      using detected(3,4,13) by (simp add: tail_fields split: option.splits)
    with None show ?thesis using early by blast
  qed
qed



text \<open>Every run ends with the line-64 events still in its trace, the detector invoked if it
  returned, and an exit exactly when the promise was rejected.\<close>

lemma k8s_trace_kept:
  "set (trace (checkKubernetes w (logger Debug ''initializing metrics'' initialState)))
     \<subseteq> set (trace (snd (startup w)))"
proof -
  obtain k pre res boot where
    "trace (checkKubernetes w (logger Debug ''initializing metrics'' initialState)) =
       Log Debug (Text ''initializing metrics'') # EnvRead ''KUBERNETES_SERVICE_HOST'' # k"
    "trace (snd (startup w)) =
       Log Debug (Text ''initializing metrics'') # EnvRead ''KUBERNETES_SERVICE_HOST'' # k
       @ pre @ [RegisterHttp ''handleHttpReq'', Log Info (Text ''HTTP handler ready.'')]
       @ res @ boot @ finalEvents (fst (startup w))"
    by (rule trace_shape [of w])
  then show ?thesis by auto
qed

lemma detector_invoked:
  assumes "detect w = Inr d"
  shows "Detect \<in> set (trace (snd (startup w)))"
proof (cases w rule: startup_cases)
  case (detected d g u sB pre res)
  have "set (trace sB) \<subseteq> set (trace (snd (startup w)))"
    using detected(13) tail_fields(4) [of sB w] by (auto split: option.splits)
  moreover have "Detect \<in> set (trace sB)"
    using detected(9,14) by simp
  ultimately show ?thesis by blast
qed (use assms in auto)

lemma exitCodes_k8s: "list_all emitsK8s xs \<Longrightarrow> exitCodes xs = []"
  by (induction xs rule: exitCodes.induct) simp_all

lemma exitCodes_resolve: "list_all emitsResolve xs \<Longrightarrow> exitCodes xs = []"
  by (induction xs rule: exitCodes.induct) simp_all

lemma exitCodes_boot: "list_all emitsBoot xs \<Longrightarrow> exitCodes xs = []"
  by (induction xs rule: exitCodes.induct) simp_all

lemma exit_iff_rejected:
  "exitCodes (trace (snd (startup w))) =
     (case fst (startup w) of Rejected e \<Rightarrow> [1] | p \<Rightarrow> [])"
proof -
  obtain k pre res boot where
    tr: "trace (snd (startup w)) =
       Log Debug (Text ''initializing metrics'') # EnvRead ''KUBERNETES_SERVICE_HOST'' # k
       @ pre @ [RegisterHttp ''handleHttpReq'', Log Info (Text ''HTTP handler ready.'')]
       @ res @ boot @ finalEvents (fst (startup w))"
    and cls: "list_all emitsK8s k" "list_all emitsResolve pre" "list_all emitsResolve res"
    and boot: "boot = [] \<or> (\<exists>bs. boot = MergedSettled # bs \<and> list_all emitsBoot bs)"
    by (rule trace_shape [of w])
  have "exitCodes k = []" "exitCodes pre = []" "exitCodes res = []"
    using cls by (simp_all add: exitCodes_k8s exitCodes_resolve)
  moreover have "exitCodes boot = []"
    using boot by (auto simp: exitCodes_boot)
  ultimately show ?thesis
    unfolding tr by (cases "fst (startup w)") (simp_all add: exitCodes_append)
qed

text \<open>The merged resource, key by key.\<close>

lemma merged_lookup:
  assumes "resources (snd (startup w)) = Some r" "gcpResources (snd (startup w)) = Some g"
  shows "attributesOf r k =
     (case explicitAttributes w g k of
        Some v \<Rightarrow> Some (StrV v)
      | None \<Rightarrow>
          if asyncAttributesPending r then syncAttributes g k
          else attributesOf (settled g) k)"
proof -
  obtain d g' where g': "gcpResources (snd (startup w)) = Some g'"
    "r = (if mergedWait w = Resolves
          then settled (merge g' (newResource (explicitAttributes w g')))
          else merge g' (newResource (explicitAttributes w g')))"
    using identity_final [OF assms(1)] by metis
  with assms(2) have gg: "g' = g" by simp
  show ?thesis
  proof (cases "mergedWait w = Resolves")
    case True
    with g'(2) gg show ?thesis by (simp add: attributesOf_settled_merge)
  next
    case False
    with g'(2) gg have r: "r = merge g (newResource (explicitAttributes w g))" by simp
    show ?thesis
      unfolding r
      by (simp add: attributesOf_merge)
        (simp add: merge_def newResource_def attributesOf_def settled_def delivered_def
          split: option.splits)
  qed
qed

subsection \<open>Counters at the end of a run\<close>

lemma sent_k8s: "list_all emitsK8s xs \<Longrightarrow> sent xs = []"
  by (induction xs rule: sent.induct) simp_all

lemma sent_resolve: "list_all emitsResolve xs \<Longrightarrow> sent xs = []"
  by (induction xs rule: sent.induct) simp_all

lemma sent_boot: "list_all emitsBoot xs \<Longrightarrow> sent xs = []"
  by (induction xs rule: sent.induct) simp_all

lemma nothing_sent_at_startup: "sent (trace (snd (startup w))) = []"
proof -
  obtain k pre res boot where
    tr: "trace (snd (startup w)) =
       Log Debug (Text ''initializing metrics'') # EnvRead ''KUBERNETES_SERVICE_HOST'' # k
       @ pre @ [RegisterHttp ''handleHttpReq'', Log Info (Text ''HTTP handler ready.'')]
       @ res @ boot @ finalEvents (fst (startup w))"
    and cls: "list_all emitsK8s k" "list_all emitsResolve pre" "list_all emitsResolve res"
    and boot: "boot = [] \<or> (\<exists>bs. boot = MergedSettled # bs \<and> list_all emitsBoot bs)"
    by (rule trace_shape [of w])
  have "sent k = []" "sent pre = []" "sent res = []"
    using cls by (simp_all add: sent_k8s sent_resolve)
  moreover have "sent boot = []"
    using boot by (auto simp: sent_boot)
  ultimately show ?thesis
    unfolding tr by (cases "fst (startup w)") (simp_all add: sent_append)
qed

text \<open>
  A run whose detection and merge go through reaches the bootstrap with no counter
  created yet.
\<close>

lemma bootstrap_reached:
  assumes "detect w = Inr d" "detectorWait w = None \<or> detectorWait w = Some Resolves"
    "mergeCall w = None" "mergedWait w = Resolves"
  obtains r st where
    "startup w = settlePromise (afterMerged w r st)"
    "counters st = Map.empty" "requestCounter st = None" "backgroundCounter st = None"
    "MergedSettled \<in> set (trace st)"
proof (cases w rule: startup_cases)
  case (detected d g u sB pre res)
  let ?r = "merge g (newResource (explicitAttributes w g))"
  let ?sM = "emit MergedSettled (sB\<lparr>resources := Some (settled ?r)\<rparr>)"
  have "startup w = settlePromise (afterMerged w (settled ?r) ?sM)"
    using detected(13) assms(3,4) by (simp add: continue_merged)
  moreover have "counters ?sM = Map.empty" "requestCounter ?sM = None"
    "backgroundCounter ?sM = None" "MergedSettled \<in> set (trace ?sM)"
    using detected(6,7,8) by simp_all
  ultimately show ?thesis by (rule that)
qed (use assms in auto)

text \<open>The state the two outcomes of a run leave behind.\<close>

lemma fulfilled_state:
  assumes "fst (startup w) = Fulfilled"
  shows "requestCounter (snd (startup w)) = Some REQUEST_COUNTER"
    and "backgroundCounter (snd (startup w)) = Some BACKGROUND_COUNTER"
    and "counters (snd (startup w)) = [REQUEST_COUNTER \<mapsto> [], BACKGROUND_COUNTER \<mapsto> []]"
proof -
  have "requestCounter (snd (startup w)) = Some REQUEST_COUNTER
      \<and> backgroundCounter (snd (startup w)) = Some BACKGROUND_COUNTER
      \<and> counters (snd (startup w)) = [REQUEST_COUNTER \<mapsto> [], BACKGROUND_COUNTER \<mapsto> []]"
  proof (cases w rule: startup_cases)
    case (detected d g u sB pre res)
    show ?thesis
    proof (cases "mergeCall w")
      case None
      let ?r = "merge g (newResource (explicitAttributes w g))"
      let ?sM = "emit MergedSettled (sB\<lparr>resources := Some (settled ?r)\<rparr>)"
      from None detected(13)
      have run: "startup w = settlePromise (continue w (AwaitingMerged ?r) sB)"
        by simp
      show ?thesis
      proof (cases rule: merged_cases [of w ?r sB])
        case fulfilled
        then show ?thesis
          using afterMerged_Fulfilled [of w "settled ?r" ?sM] detected(6) run by simp
      qed (use assms run in auto)
    qed (use assms detected in auto)
  qed (use assms in auto)
  then show "requestCounter (snd (startup w)) = Some REQUEST_COUNTER"
    and "backgroundCounter (snd (startup w)) = Some BACKGROUND_COUNTER"
    and "counters (snd (startup w)) = [REQUEST_COUNTER \<mapsto> [], BACKGROUND_COUNTER \<mapsto> []]"
    by simp_all
qed

lemma rejected_state:
  assumes "fst (startup w) = Rejected e"
  shows "backgroundCounter (snd (startup w)) = None
    \<and> (counters (snd (startup w)) = Map.empty \<and> requestCounter (snd (startup w)) = None
       \<or> counters (snd (startup w)) = [REQUEST_COUNTER \<mapsto> []]
         \<and> requestCounter (snd (startup w)) = Some REQUEST_COUNTER
         \<and> createCounter w REQUEST_COUNTER = None
         \<and> createCounter w BACKGROUND_COUNTER = Some e)"
proof (cases w rule: startup_cases)
  case (detectThrows e)
  then show ?thesis by (simp add: initialState_def)
next
  case (detectorRejects d e)
  then show ?thesis by (simp add: initialState_def)
next
  case (detectorNever d)
  with assms show ?thesis by simp
next
  case (detected d g u sB pre res)
  show ?thesis
  proof (cases "mergeCall w")
    case (Some e')
    with detected show ?thesis by simp
  next
    case None
    let ?r = "merge g (newResource (explicitAttributes w g))"
    let ?sM = "emit MergedSettled (sB\<lparr>resources := Some (settled ?r)\<rparr>)"
    from None detected(13)
    have run: "startup w = settlePromise (continue w (AwaitingMerged ?r) sB)"
      by simp
    show ?thesis
    proof (cases rule: merged_cases [of w ?r sB])
      case (mergedRejects e')
      with run detected(6,7,8) show ?thesis by simp
    next
      case mergedNever
      with run assms show ?thesis by simp
    next
      case fulfilled
      with run assms show ?thesis by simp
    next
      case (bootstrapFails e')
      with run assms have "e' = e" by simp
      with bootstrapFails run show ?thesis
        using afterMerged_Rejected [of w "settled ?r" ?sM e] detected(6,7,8) by auto
    qed
  qed
qed

subsection \<open>The outcome of a run, from what the collaborators do\<close>

lemma afterMerged_calls:
  "fst (afterMerged w r st) =
     (case bootstrapCalls w of Raises e \<Rightarrow> Rejected e | _ \<Rightarrow> Fulfilled)"
  by (simp add: afterMerged_def bootstrapCalls_def Let_def split: option.splits)

lemma bootstrapCalls_not_Hangs: "bootstrapCalls w \<noteq> Hangs"
  by (simp add: bootstrapCalls_def split: option.splits)

lemma collaborators_detected:
  assumes "detect w = Inr d" "detectorWait w = None \<or> detectorWait w = Some Resolves"
  shows "collaborators w =
      (case mergeCall w of
         Some e \<Rightarrow> Raises e
       | None \<Rightarrow>
           (case mergedWait w of
              Rejects e \<Rightarrow> Raises e
            | Never \<Rightarrow> Hangs
            | Resolves \<Rightarrow> bootstrapCalls w))"
  using assms by (auto simp: collaborators_def)

lemma startup_outcome:
  "fst (startup w) =
     (case collaborators w of
        AllReturn \<Rightarrow> Fulfilled
      | Raises e \<Rightarrow> Rejected e
      | Hangs \<Rightarrow> fst (startup w))"
proof (cases w rule: startup_cases)
  case (detectThrows e)
  then show ?thesis by (simp add: collaborators_def)
next
  case (detectorRejects d e)
  then show ?thesis by (simp add: collaborators_def)
next
  case (detectorNever d)
  then show ?thesis by (simp add: collaborators_def)
next
  case (detected d g u sB pre res)
  have c: "collaborators w =
      (case mergeCall w of
         Some e \<Rightarrow> Raises e
       | None \<Rightarrow>
           (case mergedWait w of
              Rejects e \<Rightarrow> Raises e
            | Never \<Rightarrow> Hangs
            | Resolves \<Rightarrow> bootstrapCalls w))"
    using detected(1,2) by (intro collaborators_detected) auto
  show ?thesis
  proof (cases "mergeCall w")
    case (Some e)
    with detected(13) c show ?thesis by simp
  next
    case None
    let ?r = "merge g (newResource (explicitAttributes w g))"
    let ?sM = "emit MergedSettled (sB\<lparr>resources := Some (settled ?r)\<rparr>)"
    from None detected(13)
    have run: "startup w = settlePromise (continue w (AwaitingMerged ?r) sB)"
      by simp
    show ?thesis
    proof (cases rule: merged_cases [of w ?r sB])
      case (mergedRejects e)
      with run c None show ?thesis by simp
    next
      case mergedNever
      with run c None show ?thesis by simp
    next
      case fulfilled
      with run c None show ?thesis
        using afterMerged_calls [of w "settled ?r" ?sM]
        by (simp split: ending.splits)
    next
      case (bootstrapFails e)
      with run c None show ?thesis
        using afterMerged_calls [of w "settled ?r" ?sM]
        by (simp split: ending.splits)
    qed
  qed
qed

text \<open>A raised exception rejects the promise; when every call returns the promise is fulfilled.\<close>

lemma raised_rejected: "collaborators w = Raises e \<Longrightarrow> fst (startup w) = Rejected e"
  using startup_outcome [of w] by simp

lemma all_return_fulfilled: "collaborators w = AllReturn \<Longrightarrow> fst (startup w) = Fulfilled"
  using startup_outcome [of w] by simp

lemma hangs_stuck:
  assumes "collaborators w = Hangs"
  shows "\<exists>s. fst (startup w) = Stuck s"
proof (cases w rule: startup_cases)
  case (detected d g u sB pre res)
  have c: "collaborators w =
      (case mergeCall w of
         Some e \<Rightarrow> Raises e
       | None \<Rightarrow>
           (case mergedWait w of
              Rejects e \<Rightarrow> Raises e
            | Never \<Rightarrow> Hangs
            | Resolves \<Rightarrow> bootstrapCalls w))"
    using detected(1,2) by (intro collaborators_detected) auto
  from assms c have m: "mergeCall w = None" "mergedWait w = Never"
    using bootstrapCalls_not_Hangs [of w]
    by (auto split: option.splits settle.splits)
  with detected(13) show ?thesis by (simp add: continue_merged settlePromise_def)
qed (use assms in \<open>auto simp: collaborators_def\<close>)

text \<open>The process exits exactly when a call raised an exception.\<close>

lemma exit_iff_raised:
  "exitCodes (trace (snd (startup w))) =
     (case collaborators w of Raises e \<Rightarrow> [1] | _ \<Rightarrow> [])"
proof (cases "collaborators w")
  case AllReturn
  then show ?thesis using all_return_fulfilled [of w] by (simp add: exit_iff_rejected)
next
  case (Raises e)
  then show ?thesis using raised_rejected [of w e] by (simp add: exit_iff_rejected)
next
  case Hangs
  then show ?thesis using hangs_stuck [of w] by (auto simp: exit_iff_rejected)
qed

text \<open>A run in which every call returns, whatever the environment and the detected attributes.\<close>

lemma quiet_all_return: "collaborators (quietWorld e a) = AllReturn"
  by (simp add: collaborators_def bootstrapCalls_def)

subsection \<open>Ticks and requests\<close>

lemma counterAdd_fields [simp]:
  "trace (counterAdd c n st) = trace st @ [CounterAdd c n]"
  "counters (counterAdd c n st) =
     (counters st)(c \<mapsto> (case counters st c of None \<Rightarrow> [n] | Some xs \<Rightarrow> xs @ [n]))"
  "backgroundCounter (counterAdd c n st) = backgroundCounter st"
  "requestCounter (counterAdd c n st) = requestCounter st"
  by (simp_all add: counterAdd_def)

lemma runAll_counts:
  assumes "requestCounter st = Some rq" "backgroundCounter st = Some bg" "rq \<noteq> bg"
    "counters st bg = Some xs" "counters st rq = Some ys"
  shows "fst (runAll acts st) = replicate (length acts) None
    \<and> counters (snd (runAll acts st)) bg = Some (xs @ replicate (count_list acts Tick) 1)
    \<and> counters (snd (runAll acts st)) rq = Some (ys @ replicate (count_list acts Request) 1)
    \<and> sent (trace (snd (runAll acts st))) =
        sent (trace st) @ replicate (count_list acts Request) ''OK''"
  using assms
proof (induction acts arbitrary: st xs ys)
  case Nil
  then show ?case by simp
next
  case (Cons a acts)
  show ?case
  proof (cases a)
    case Tick
    let ?st = "counterAdd bg 1 st"
    have step: "dispatch a st = (None, ?st)"
      using Cons.prems(2) Tick by (simp add: backgroundTask_def)
    have "requestCounter ?st = Some rq" "backgroundCounter ?st = Some bg"
      "counters ?st bg = Some (xs @ [1])" "counters ?st rq = Some ys"
      using Cons.prems by simp_all
    from Cons.IH [OF this(1,2) Cons.prems(3) this(3,4)] step Tick
    show ?thesis
      by (simp add: split_beta sent_append replicate_app_Cons_same)
  next
    case Request
    let ?st = "emit (Send ''OK'') (counterAdd rq 1 (logger Info ''handling HTTP request'' st))"
    have step: "dispatch a st = (None, ?st)"
      using Cons.prems(1) Request by (simp add: handleHttpReq_def)
    have "requestCounter ?st = Some rq" "backgroundCounter ?st = Some bg"
      "counters ?st bg = Some xs" "counters ?st rq = Some (ys @ [1])"
      using Cons.prems by simp_all
    from Cons.IH [OF this(1,2) Cons.prems(3) this(3,4)] step Request
    show ?thesis
      by (simp add: split_beta sent_append replicate_app_Cons_same)
  qed
qed

lemma counter_names_differ: "REQUEST_COUNTER \<noteq> BACKGROUND_COUNTER"
  by (simp add: REQUEST_COUNTER_def BACKGROUND_COUNTER_def)

subsection \<open>Particular runs\<close>

lemma worldPlain_fields [simp]:
  "detect worldPlain =
     Inr \<lparr>syncAttributes = Map.empty, asyncAttributes = Some Map.empty,
          asyncAttributesPending = True\<rparr>"
  "detectorWait worldPlain = Some Resolves"
  "mergeCall worldPlain = None"
  "mergedWait worldPlain = Resolves"
  "newExporter worldPlain = None"
  "newReader worldPlain = None"
  "newMeterProvider worldPlain = None"
  "getMeter worldPlain = None"
  "createCounter worldPlain n = None"
  by (simp_all add: worldPlain_def)

lemma worldPlain_fulfilled: "fst (startup worldPlain) = Fulfilled"
proof -
  obtain r st where "startup worldPlain = settlePromise (afterMerged worldPlain r st)"
    by (rule bootstrap_reached [of worldPlain]) simp_all
  then show ?thesis
    by (simp add: afterMerged_def settlePromise_def Let_def)
qed

lemma worldExporterFails_rejected:
  "fst (startup worldExporterFails) = Rejected (Thrown ''no credentials'')"
proof -
  obtain r st where "startup worldExporterFails = settlePromise (afterMerged worldExporterFails r st)"
    by (rule bootstrap_reached [of worldExporterFails]) (simp_all add: worldExporterFails_def)
  then show ?thesis
    by (simp add: afterMerged_def settlePromise_def Let_def worldExporterFails_def)
qed

lemma moduleLoad_state:
  "requestCounter (snd (moduleLoad w)) = None"
  "backgroundCounter (snd (moduleLoad w)) = None"
  "RegisterHttp ''handleHttpReq'' \<in> set (trace (snd (moduleLoad w)))"
  "fst (moduleLoad w) \<noteq> Fulfilled"
  "counters (snd (moduleLoad w)) = Map.empty"
proof -
  have "requestCounter (snd (initMetrics_enter w initialState)) = None
      \<and> backgroundCounter (snd (initMetrics_enter w initialState)) = None
      \<and> fst (initMetrics_enter w initialState) \<noteq> Fulfilled
      \<and> counters (snd (initMetrics_enter w initialState)) = Map.empty"
    by (simp add: enter_eq afterDetection_fst initialState_def
        split: sum.splits option.splits)
  then show "requestCounter (snd (moduleLoad w)) = None"
    "backgroundCounter (snd (moduleLoad w)) = None"
    "RegisterHttp ''handleHttpReq'' \<in> set (trace (snd (moduleLoad w)))"
    "fst (moduleLoad w) \<noteq> Fulfilled"
    "counters (snd (moduleLoad w)) = Map.empty"
    by (simp_all add: moduleLoad_def split_beta)
qed

section \<open>The claims\<close>

text \<open>
  Claim C1. In every run, whatever the environment and the collaborators do, the await of
  the merged resource's asynchronous attributes has completed (\<open>MergedSettled\<close>) before
  the metrics provider is constructed and before either counter is created; and a provider
  is only ever constructed with a resource that has nothing pending.
\<close>

theorem resolution_precedes_bootstrap:
  "precededBy isMergedSettled isBootstrap (trace (snd (startup w)))
   \<and> list_all providerResolved (trace (snd (startup w)))"
proof -
  obtain k pre res boot where
    tr: "trace (snd (startup w)) =
       Log Debug (Text ''initializing metrics'') # EnvRead ''KUBERNETES_SERVICE_HOST'' # k
       @ pre @ [RegisterHttp ''handleHttpReq'', Log Info (Text ''HTTP handler ready.'')]
       @ res @ boot @ finalEvents (fst (startup w))"
    and cls: "list_all emitsK8s k" "list_all emitsResolve pre" "list_all emitsResolve res"
    and boot: "boot = [] \<or> (\<exists>bs. boot = MergedSettled # bs \<and> list_all emitsBoot bs)"
    by (rule trace_shape [of w])
  have quiet: "list_all (\<lambda>e. \<not> isBootstrap e) k" "list_all (\<lambda>e. \<not> isBootstrap e) pre"
    "list_all (\<lambda>e. \<not> isBootstrap e) res"
    using cls by (auto simp: list_all_iff dest: k8s_not_bootstrap resolve_not_bootstrap)
  have fin: "list_all (\<lambda>e. \<not> isBootstrap e) (finalEvents (fst (startup w)))"
    by (cases "fst (startup w)") simp_all
  have tail: "precededBy isMergedSettled isBootstrap (boot @ finalEvents (fst (startup w)))"
    using boot fin by (auto intro: precededBy_quiet)
  have order: "precededBy isMergedSettled isBootstrap (trace (snd (startup w)))"
    unfolding tr using quiet tail
    by (simp add: precededBy_append)
  have res1: "list_all providerResolved k" "list_all providerResolved pre"
    "list_all providerResolved res"
    using cls by (auto simp: list_all_iff intro: k8s_providerResolved resolve_providerResolved)
  have res2: "list_all providerResolved boot"
    using boot by (auto simp: list_all_iff intro: boot_providerResolved)
  have "list_all providerResolved (trace (snd (startup w)))"
    unfolding tr using res1 res2 finalEvents_providerResolved by simp
  with order show ?thesis ..
qed

text \<open>
  In a run in which every call returns, the merged resource settles and both counters
  are created, in this order.
\<close>

theorem resolution_precedes_bootstrap_witness:
  "MergedSettled \<in> set (trace (snd (startup worldPlain)))
   \<and> CreateCounter REQUEST_COUNTER \<in> set (trace (snd (startup worldPlain)))
   \<and> CreateCounter BACKGROUND_COUNTER \<in> set (trace (snd (startup worldPlain)))
   \<and> precededBy isMergedSettled isBootstrap (trace (snd (startup worldPlain)))
   \<and> list_all providerResolved (trace (snd (startup worldPlain)))"
proof -
  obtain r st where run: "startup worldPlain = settlePromise (afterMerged worldPlain r st)"
    and st: "MergedSettled \<in> set (trace st)"
    by (rule bootstrap_reached [of worldPlain]) simp_all
  have "MergedSettled \<in> set (trace (snd (startup worldPlain)))
      \<and> CreateCounter REQUEST_COUNTER \<in> set (trace (snd (startup worldPlain)))
      \<and> CreateCounter BACKGROUND_COUNTER \<in> set (trace (snd (startup worldPlain)))"
    unfolding run using st by (simp add: afterMerged_def settlePromise_def Let_def)
  with resolution_precedes_bootstrap [of worldPlain] show ?thesis by simp
qed

text \<open>
  Claim C7, as the code has it. The order is the reverse of the claimed one: the
  orchestration context is determined first. Every event of the detector (its invocation,
  the start and the end of the await) comes after the read of
  \<^verbatim>\<open>KUBERNETES_SERVICE_HOST\<close>, and from the first detector event on the run neither
  reads a Kubernetes variable nor assigns the pod-name key.
\<close>

theorem orchestration_check_precedes_detector:
  "precededBy isHostCheck isDetection (trace (snd (startup w)))
   \<and> list_all (\<lambda>e. \<not> isOrchestration e)
       (dropWhile (\<lambda>e. \<not> isDetection e) (trace (snd (startup w))))"
proof -
  obtain k pre res boot where
    tr: "trace (snd (startup w)) =
       Log Debug (Text ''initializing metrics'') # EnvRead ''KUBERNETES_SERVICE_HOST'' # k
       @ pre @ [RegisterHttp ''handleHttpReq'', Log Info (Text ''HTTP handler ready.'')]
       @ res @ boot @ finalEvents (fst (startup w))"
    and cls: "list_all emitsK8s k" "list_all emitsResolve pre" "list_all emitsResolve res"
    and boot: "boot = [] \<or> (\<exists>bs. boot = MergedSettled # bs \<and> list_all emitsBoot bs)"
    by (rule trace_shape [of w])
  let ?rest = "pre @ [RegisterHttp ''handleHttpReq'', Log Info (Text ''HTTP handler ready.'')]
       @ res @ boot @ finalEvents (fst (startup w))"
  have first: "precededBy isHostCheck isDetection (trace (snd (startup w)))"
    unfolding tr by simp
  have k: "list_all (\<lambda>e. \<not> isDetection e) k"
    using cls(1) by (auto simp: list_all_iff dest: k8s_not_detection)
  have "list_all (\<lambda>e. \<not> isOrchestration e) boot"
    using boot by (auto simp: list_all_iff dest: boot_not_orchestration)
  moreover have "list_all (\<lambda>e. \<not> isOrchestration e) pre" "list_all (\<lambda>e. \<not> isOrchestration e) res"
    using cls(2,3) by (auto simp: list_all_iff dest: resolve_not_orchestration)
  ultimately have rest: "list_all (\<lambda>e. \<not> isOrchestration e) ?rest"
    using finalEvents_not_orchestration by simp
  have "dropWhile (\<lambda>e. \<not> isDetection e) (trace (snd (startup w)))
      = dropWhile (\<lambda>e. \<not> isDetection e) ?rest"
    unfolding tr using dropWhile_quiet [OF k, of ?rest] by simp
  with rest first show ?thesis
    by (simp add: list_all_dropWhile)
qed

text \<open>In a pod the detector is invoked, after the host variable has been read.\<close>

theorem orchestration_check_precedes_detector_witness:
  "EnvRead ''KUBERNETES_SERVICE_HOST'' \<in> set (trace (snd (startup worldGke)))
   \<and> Detect \<in> set (trace (snd (startup worldGke)))
   \<and> precededBy isHostCheck isDetection (trace (snd (startup worldGke)))
   \<and> list_all (\<lambda>e. \<not> isOrchestration e)
       (dropWhile (\<lambda>e. \<not> isDetection e) (trace (snd (startup worldGke))))"
proof -
  have "Detect \<in> set (trace (snd (startup worldGke)))"
    by (rule detector_invoked) (simp add: worldGke_def)
  moreover have "EnvRead ''KUBERNETES_SERVICE_HOST'' \<in> set (trace (snd (startup worldGke)))"
    using line64_trace [of worldGke] k8s_trace_kept [of worldGke] by auto
  ultimately show ?thesis
    using orchestration_check_precedes_detector [of worldGke] by simp
qed

text \<open>
  Claim C7 as stated fails: in a pod whose environment names the pod, the orchestration
  check happens with no detector event before it.
\<close>

theorem detector_first_counterexample:
  "\<not> precededBy isDetection isOrchestration (trace (snd (startup worldGke)))"
proof -
  obtain k pre res boot where
    tr: "trace (snd (startup worldGke)) =
       Log Debug (Text ''initializing metrics'') # EnvRead ''KUBERNETES_SERVICE_HOST'' # k
       @ pre @ [RegisterHttp ''handleHttpReq'', Log Info (Text ''HTTP handler ready.'')]
       @ res @ boot @ finalEvents (fst (startup worldGke))"
    by (rule trace_shape [of worldGke])
  show ?thesis unfolding tr by simp
qed

text \<open>
  Claim C3, as the code has it. When \<^verbatim>\<open>FUNCTION_TARGET\<close> and
  \<^verbatim>\<open>USE_OTEL_GCF_WORKAROUND\<close> are both set to a non-empty value, the platform key of
  the merged resource, and of the resource any provider is constructed with, is
  \<^verbatim>\<open>generic_task\<close>, whatever the detector reported under that key. Line 70 tests the
  two variables for truth, and a variable set to the empty string is not true.
\<close>

theorem platform_forced_to_generic_task:
  assumes "truthy (env w ''FUNCTION_TARGET'')" "truthy (env w ''USE_OTEL_GCF_WORKAROUND'')"
    and "resources (snd (startup w)) = Some r
         \<or> NewMeterProvider r \<in> set (trace (snd (startup w)))"
  shows "attributesOf r SEMRESATTRS_CLOUD_PLATFORM = Some (StrV ''generic_task'')"
proof -
  from assms(3) have r: "resources (snd (startup w)) = Some r"
    using provider_identity by blast
  then obtain d g where g: "gcpResources (snd (startup w)) = Some g"
    using identity_final [OF r] by metis
  show ?thesis
    using explicit_wins [OF r g] assms(1,2) by (simp add: explicit_platform)
qed

text \<open>
  A Cloud Function whose detector reports the platform \<^verbatim>\<open>gcp_cloud_functions\<close>: the
  resolved identity says \<^verbatim>\<open>generic_task\<close>.
\<close>

theorem platform_forced_to_generic_task_witness:
  "truthy (env worldGcf ''FUNCTION_TARGET'')
   \<and> truthy (env worldGcf ''USE_OTEL_GCF_WORKAROUND'')
   \<and> detectedAttributes worldGcf SEMRESATTRS_CLOUD_PLATFORM = Some (StrV ''gcp_cloud_functions'')
   \<and> resolvedIdentity worldGcf SEMRESATTRS_CLOUD_PLATFORM = Some (StrV ''generic_task'')"
proof -
  have t: "truthy (env worldGcf ''FUNCTION_TARGET'')"
    "truthy (env worldGcf ''USE_OTEL_GCF_WORKAROUND'')"
    by (simp_all add: worldGcf_def truthy_def)
  obtain r where r: "resources (snd (startup worldGcf)) = Some r"
    using quiet_has_identity unfolding worldGcf_def by blast
  have "attributesOf r SEMRESATTRS_CLOUD_PLATFORM = Some (StrV ''generic_task'')"
    using platform_forced_to_generic_task [OF t disjI1 [OF r]] .
  then have "resolvedIdentity worldGcf SEMRESATTRS_CLOUD_PLATFORM = Some (StrV ''generic_task'')"
    using r by (simp add: resolvedIdentity_def)
  moreover have "detectedAttributes worldGcf SEMRESATTRS_CLOUD_PLATFORM
      = Some (StrV ''gcp_cloud_functions'')"
    by (simp add: worldGcf_def quiet_detected SEMRESATTRS_CLOUD_PLATFORM_def
        SEMRESATTRS_FAAS_ID_def)
  ultimately show ?thesis using t by simp
qed

text \<open>
  Claim C3 as stated fails: both variables are set in the environment, one of them to the
  empty string, and the platform key of the resolved identity is the detected
  \<^verbatim>\<open>gcp_cloud_functions\<close>, not \<^verbatim>\<open>generic_task\<close>.
\<close>

theorem platform_not_forced_counterexample:
  "env worldGcfFlagEmpty ''FUNCTION_TARGET'' = Some ''handleHttpReq''
   \<and> env worldGcfFlagEmpty ''USE_OTEL_GCF_WORKAROUND'' = Some ''''
   \<and> detectedAttributes worldGcfFlagEmpty SEMRESATTRS_CLOUD_PLATFORM
       = Some (StrV ''gcp_cloud_functions'')
   \<and> resolvedIdentity worldGcfFlagEmpty SEMRESATTRS_CLOUD_PLATFORM
       = Some (StrV ''gcp_cloud_functions'')
   \<and> env worldGcfTargetEmpty ''FUNCTION_TARGET'' = Some ''''
   \<and> env worldGcfTargetEmpty ''USE_OTEL_GCF_WORKAROUND'' = Some ''true''
   \<and> detectedAttributes worldGcfTargetEmpty SEMRESATTRS_CLOUD_PLATFORM
       = Some (StrV ''gcp_cloud_functions'')
   \<and> resolvedIdentity worldGcfTargetEmpty SEMRESATTRS_CLOUD_PLATFORM
       = Some (StrV ''gcp_cloud_functions'')"
  unfolding worldGcfFlagEmpty_def worldGcfTargetEmpty_def
  by (simp add: quiet_resolved quiet_detected explicit_platform truthy_def)

text \<open>
  Claim C5. For every environment and every behaviour of the detector and the other
  collaborators, the merged resource of the run, and so the resource handed to the
  metrics provider, has the three static keys with their static values.
\<close>

theorem static_keys_always_present:
  assumes "resources (snd (startup w)) = Some r
           \<or> NewMeterProvider r \<in> set (trace (snd (startup w)))"
  shows "attributesOf r SEMRESATTRS_SERVICE_NAMESPACE = Some (StrV ''nielm'')
       \<and> attributesOf r SEMRESATTRS_SERVICE_NAME = Some (StrV ''counters-test'')
       \<and> attributesOf r SEMRESATTRS_SERVICE_VERSION = Some (StrV ''1.0.0'')"
proof -
  from assms have r: "resources (snd (startup w)) = Some r"
    using provider_identity by blast
  then obtain d g where g: "gcpResources (snd (startup w)) = Some g"
    using identity_final [OF r] by metis
  show ?thesis
    using explicit_wins [OF r g] by (simp add: explicit_static)
qed

text \<open>A pod under Kubernetes: the three static keys are in its resolved identity.\<close>

theorem static_keys_always_present_witness:
  "resolvedIdentity worldGke SEMRESATTRS_SERVICE_NAMESPACE = Some (StrV ''nielm'')
   \<and> resolvedIdentity worldGke SEMRESATTRS_SERVICE_NAME = Some (StrV ''counters-test'')
   \<and> resolvedIdentity worldGke SEMRESATTRS_SERVICE_VERSION = Some (StrV ''1.0.0'')"
proof -
  obtain r where r: "resources (snd (startup worldGke)) = Some r"
    using quiet_has_identity unfolding worldGke_def by blast
  show ?thesis
    using static_keys_always_present [OF disjI1 [OF r]] r
    by (simp add: resolvedIdentity_def)
qed

text \<open>
  Claim C6. The merged resource is the union of the detected and the explicit attributes
  in which the explicit ones win: at every key it has the value of
  \<^verbatim>\<open>RESOURCE_ATTRIBUTES\<close> when that mapping has the key, and the detected value
  otherwise (the detected resource's synchronous attributes while the merged resource is
  still pending, all its attributes once it has settled).
\<close>

theorem merged_identity_explicit_over_detected:
  assumes "resources (snd (startup w)) = Some r"
  shows "\<exists>g. gcpResources (snd (startup w)) = Some g
      \<and> (\<forall>k. attributesOf r k =
            (case RESOURCE_ATTRIBUTES (snd (startup w)) k of
               Some v \<Rightarrow> Some (StrV v)
             | None \<Rightarrow>
                 if asyncAttributesPending r then syncAttributes g k
                 else attributesOf (settled g) k))"
proof -
  obtain d g where g: "gcpResources (snd (startup w)) = Some g"
    "RESOURCE_ATTRIBUTES (snd (startup w)) = explicitAttributes w g"
    using identity_final [OF assms] by metis
  show ?thesis
    using g merged_lookup [OF assms g(1)] by simp
qed

text \<open>
  In a Cloud Function with the workaround on, the platform comes from the explicit
  mapping and the function id, which the mapping does not hold, from the detector.
\<close>

theorem merged_identity_explicit_over_detected_witness:
  "RESOURCE_ATTRIBUTES (snd (startup worldGcf)) SEMRESATTRS_CLOUD_PLATFORM = Some ''generic_task''
   \<and> resolvedIdentity worldGcf SEMRESATTRS_CLOUD_PLATFORM = Some (StrV ''generic_task'')
   \<and> RESOURCE_ATTRIBUTES (snd (startup worldGcf)) SEMRESATTRS_FAAS_ID = None
   \<and> detectedAttributes worldGcf SEMRESATTRS_FAAS_ID = Some (StrV ''abc123'')
   \<and> resolvedIdentity worldGcf SEMRESATTRS_FAAS_ID = Some (StrV ''abc123'')"
proof -
  let ?d = "\<lparr>syncAttributes = Map.empty,
      asyncAttributes = Some [SEMRESATTRS_CLOUD_PLATFORM \<mapsto> StrV ''gcp_cloud_functions'',
        SEMRESATTRS_FAAS_ID \<mapsto> StrV ''abc123''],
      asyncAttributesPending = True\<rparr>"
  have run: "detect worldGcf = Inr ?d" "detectorWait worldGcf = Some Resolves"
    "mergeCall worldGcf = None" "mergedWait worldGcf = Resolves"
    by (simp_all add: worldGcf_def)
  have g: "gcpResources (snd (startup worldGcf)) = Some (settled ?d)"
    by (rule identity_of_run(1) [OF run(1-3)])
  obtain r where r: "resources (snd (startup worldGcf)) = Some r"
    "\<not> asyncAttributesPending r"
    using identity_of_run(2) [OF run(1-3)] run(4) by simp
  obtain d' g' where "gcpResources (snd (startup worldGcf)) = Some g'"
    "RESOURCE_ATTRIBUTES (snd (startup worldGcf)) = explicitAttributes worldGcf g'"
    using identity_final [OF r(1)] by metis
  with g have attrs: "RESOURCE_ATTRIBUTES (snd (startup worldGcf))
      = explicitAttributes worldGcf (settled ?d)"
    by simp
  have env: "truthy (env worldGcf ''FUNCTION_TARGET'')"
    "truthy (env worldGcf ''USE_OTEL_GCF_WORKAROUND'')"
    by (simp_all add: worldGcf_def truthy_def)
  have a1: "RESOURCE_ATTRIBUTES (snd (startup worldGcf)) SEMRESATTRS_CLOUD_PLATFORM
      = Some ''generic_task''"
    unfolding attrs using env by (simp add: explicit_platform)
  have a2: "RESOURCE_ATTRIBUTES (snd (startup worldGcf)) SEMRESATTRS_FAAS_ID = None"
    unfolding attrs
    by (simp add: explicitAttributes_def checkCloudFunctions_attrs checkKubernetes_attrs
        initialState_def SEMRESATTRS_SERVICE_NAMESPACE_def SEMRESATTRS_SERVICE_NAME_def
        SEMRESATTRS_SERVICE_VERSION_def SEMRESATTRS_K8S_POD_NAME_def
        SEMRESATTRS_CLOUD_PLATFORM_def SEMRESATTRS_SERVICE_INSTANCE_ID_def
        SEMRESATTRS_FAAS_ID_def split: option.splits)
  have det: "detectedAttributes worldGcf SEMRESATTRS_FAAS_ID = Some (StrV ''abc123'')"
    by (simp add: worldGcf_def quiet_detected)
  from merged_identity_explicit_over_detected [OF r(1)] g r(2)
  have all: "attributesOf r k =
      (case RESOURCE_ATTRIBUTES (snd (startup worldGcf)) k of
         Some v \<Rightarrow> Some (StrV v)
       | None \<Rightarrow> attributesOf (settled (settled ?d)) k)" for k
    by simp
  have "attributesOf r SEMRESATTRS_CLOUD_PLATFORM = Some (StrV ''generic_task'')"
    using all [of SEMRESATTRS_CLOUD_PLATFORM] a1 by simp
  moreover have "attributesOf r SEMRESATTRS_FAAS_ID = Some (StrV ''abc123'')"
    using all [of SEMRESATTRS_FAAS_ID] a2
    by (simp add: attributesOf_def settled_def delivered_def)
  ultimately show ?thesis
    using a1 a2 det r(1) by (simp add: resolvedIdentity_def)
qed




text \<open>
  Claim C4, as the code has it. With \<^verbatim>\<open>KUBERNETES_SERVICE_HOST\<close> set to a non-empty
  value: when \<^verbatim>\<open>K8S_POD_NAME\<close> is set to a non-empty value, the pod-name key of the
  merged resource is exactly that value. When it is absent (or empty), the module assigns
  no pod-name key and logs the warning. The process does not terminate on that account:
  the run goes on to invoke the detector, the process exits exactly when a call into the
  packages raises an exception, and the promise of \<^verbatim>\<open>initMetrics\<close> is fulfilled when
  every call returns. The merged resource then has the pod-name key exactly when the
  detector supplied one. It is not always omitted.
\<close>

theorem pod_name_from_environment:
  assumes "truthy (env w ''KUBERNETES_SERVICE_HOST'')"
  shows "(\<forall>v r. env w ''K8S_POD_NAME'' = Some v \<and> v \<noteq> []
            \<and> resources (snd (startup w)) = Some r
          \<longrightarrow> attributesOf r SEMRESATTRS_K8S_POD_NAME = Some (StrV v))
    \<and> (\<not> truthy (env w ''K8S_POD_NAME'')
        \<longrightarrow> RESOURCE_ATTRIBUTES (snd (startup w)) SEMRESATTRS_K8S_POD_NAME = None
          \<and> Log Warn (Text K8S_POD_NAME_WARNING) \<in> set (trace (snd (startup w)))
          \<and> (\<forall>d. detect w = Inr d \<longrightarrow> Detect \<in> set (trace (snd (startup w))))
          \<and> exitCodes (trace (snd (startup w))) =
              (case collaborators w of Raises e \<Rightarrow> [1] | _ \<Rightarrow> [])
          \<and> (collaborators w = AllReturn \<longrightarrow> fst (startup w) = Fulfilled)
          \<and> (\<forall>r g. resources (snd (startup w)) = Some r
                  \<and> gcpResources (snd (startup w)) = Some g \<longrightarrow>
                attributesOf r SEMRESATTRS_K8S_POD_NAME =
                  (if asyncAttributesPending r
                   then syncAttributes g SEMRESATTRS_K8S_POD_NAME
                   else attributesOf (settled g) SEMRESATTRS_K8S_POD_NAME)))"
proof (intro conjI allI impI)
  fix v r
  assume a: "env w ''K8S_POD_NAME'' = Some v \<and> v \<noteq> [] \<and> resources (snd (startup w)) = Some r"
  then obtain d g where g: "gcpResources (snd (startup w)) = Some g"
    using identity_final [of w r] by metis
  have "explicitAttributes w g SEMRESATTRS_K8S_POD_NAME = Some v"
    using a assms by (simp add: explicit_pod_name truthy_def)
  with a g show "attributesOf r SEMRESATTRS_K8S_POD_NAME = Some (StrV v)"
    using explicit_wins by blast
next
  assume a: "\<not> truthy (env w ''K8S_POD_NAME'')"
  have none: "explicitAttributes w g SEMRESATTRS_K8S_POD_NAME = None" for g
    using a by (simp add: explicit_pod_name)
  have k: "RESOURCE_ATTRIBUTES (checkKubernetes w initialState) SEMRESATTRS_K8S_POD_NAME = None"
    using a
    by (cases "env w ''K8S_POD_NAME''")
      (simp_all add: checkKubernetes_attrs initialState_def truthy_def)
  show "RESOURCE_ATTRIBUTES (snd (startup w)) SEMRESATTRS_K8S_POD_NAME = None"
    by (cases w rule: final_attributes) (use none k in auto)
  show "Log Warn (Text K8S_POD_NAME_WARNING) \<in> set (trace (snd (startup w)))"
    using checkKubernetes_warns [OF assms a] k8s_trace_kept [of w] by blast
  show "Detect \<in> set (trace (snd (startup w)))" if "detect w = Inr d" for d
    using that by (rule detector_invoked)
  show "exitCodes (trace (snd (startup w))) =
      (case collaborators w of Raises e \<Rightarrow> [1] | _ \<Rightarrow> [])"
    by (rule exit_iff_raised)
  show "fst (startup w) = Fulfilled" if "collaborators w = AllReturn"
    using that by (rule all_return_fulfilled)
  show "attributesOf r SEMRESATTRS_K8S_POD_NAME =
      (if asyncAttributesPending r
       then syncAttributes g SEMRESATTRS_K8S_POD_NAME
       else attributesOf (settled g) SEMRESATTRS_K8S_POD_NAME)"
    if "resources (snd (startup w)) = Some r \<and> gcpResources (snd (startup w)) = Some g" for r g
    using merged_lookup [of w r g SEMRESATTRS_K8S_POD_NAME] that none by simp
qed

text \<open>
  Both halves at concrete runs: a pod that knows its name, and one that does not, where
  every call returns and the run completes without an exit.
\<close>

theorem pod_name_from_environment_witness:
  "truthy (env worldGke ''KUBERNETES_SERVICE_HOST'')
   \<and> env worldGke ''K8S_POD_NAME'' = Some ''pod-7''
   \<and> resolvedIdentity worldGke SEMRESATTRS_K8S_POD_NAME = Some (StrV ''pod-7'')
   \<and> truthy (env worldPodless ''KUBERNETES_SERVICE_HOST'')
   \<and> env worldPodless ''K8S_POD_NAME'' = None
   \<and> RESOURCE_ATTRIBUTES (snd (startup worldPodless)) SEMRESATTRS_K8S_POD_NAME = None
   \<and> resolvedIdentity worldPodless SEMRESATTRS_K8S_POD_NAME = None
   \<and> Log Warn (Text K8S_POD_NAME_WARNING) \<in> set (trace (snd (startup worldPodless)))
   \<and> Detect \<in> set (trace (snd (startup worldPodless)))
   \<and> collaborators worldPodless = AllReturn
   \<and> fst (startup worldPodless) = Fulfilled
   \<and> exitCodes (trace (snd (startup worldPodless))) = []"
proof -
  have t: "truthy (env worldGke ''KUBERNETES_SERVICE_HOST'')"
    "truthy (env worldPodless ''KUBERNETES_SERVICE_HOST'')"
    "\<not> truthy (env worldPodless ''K8S_POD_NAME'')"
    by (simp_all add: worldGke_def worldPodless_def truthy_def)
  have e: "env worldGke ''K8S_POD_NAME'' = Some ''pod-7''" "env worldPodless ''K8S_POD_NAME'' = None"
    by (simp_all add: worldGke_def worldPodless_def)
  have calls: "collaborators worldPodless = AllReturn"
    by (simp add: worldPodless_def quiet_all_return)
  obtain r where r: "resources (snd (startup worldGke)) = Some r"
    using quiet_has_identity unfolding worldGke_def by blast
  have "attributesOf r SEMRESATTRS_K8S_POD_NAME = Some (StrV ''pod-7'')"
    using pod_name_from_environment
      [OF t(1), THEN conjunct1, rule_format, of "''pod-7''" r] e(1) r by simp
  then have first: "resolvedIdentity worldGke SEMRESATTRS_K8S_POD_NAME = Some (StrV ''pod-7'')"
    using r by (simp add: resolvedIdentity_def)
  have second: "RESOURCE_ATTRIBUTES (snd (startup worldPodless)) SEMRESATTRS_K8S_POD_NAME = None
      \<and> Log Warn (Text K8S_POD_NAME_WARNING) \<in> set (trace (snd (startup worldPodless)))
      \<and> Detect \<in> set (trace (snd (startup worldPodless)))
      \<and> fst (startup worldPodless) = Fulfilled
      \<and> exitCodes (trace (snd (startup worldPodless))) = []"
    using pod_name_from_environment [OF t(2), THEN conjunct2] t(3) calls
    by (simp add: worldPodless_def)
  have "resolvedIdentity worldPodless SEMRESATTRS_K8S_POD_NAME = None"
    unfolding worldPodless_def
    by (simp add: quiet_resolved explicit_pod_name truthy_def)
  with t e first second calls show ?thesis by simp
qed

text \<open>
  Claim C4 as stated fails, in three ways. The signal is set and the variable is absent,
  yet the resolved identity has a pod-name key, the one the detector reported. A variable
  set to the empty string does not count: with both variables set, one of them to the
  empty string, the resolved identity has no pod-name key, and with the signal set to the
  empty string and no pod-name variable, no warning is logged. And the signal is set, the
  variable is absent, the warning is logged and the process terminates all the same,
  because the exporter cannot be constructed.
\<close>

theorem pod_name_omitted_counterexample:
  "truthy (env worldGkeNoPodName ''KUBERNETES_SERVICE_HOST'')
   \<and> env worldGkeNoPodName ''K8S_POD_NAME'' = None
   \<and> resolvedIdentity worldGkeNoPodName SEMRESATTRS_K8S_POD_NAME = Some (StrV ''detected-pod'')
   \<and> env worldGkeEmptyPodName ''KUBERNETES_SERVICE_HOST'' = Some ''10.0.0.1''
   \<and> env worldGkeEmptyPodName ''K8S_POD_NAME'' = Some ''''
   \<and> resolvedIdentity worldGkeEmptyPodName SEMRESATTRS_K8S_POD_NAME = None
   \<and> env worldGkeEmptyHost ''KUBERNETES_SERVICE_HOST'' = Some ''''
   \<and> env worldGkeEmptyHost ''K8S_POD_NAME'' = Some ''pod-7''
   \<and> resolvedIdentity worldGkeEmptyHost SEMRESATTRS_K8S_POD_NAME = None
   \<and> env worldEmptyHostOnly ''KUBERNETES_SERVICE_HOST'' = Some ''''
   \<and> env worldEmptyHostOnly ''K8S_POD_NAME'' = None
   \<and> Log Warn (Text K8S_POD_NAME_WARNING) \<notin> set (trace (snd (startup worldEmptyHostOnly)))
   \<and> truthy (env worldPodlessExporterFails ''KUBERNETES_SERVICE_HOST'')
   \<and> env worldPodlessExporterFails ''K8S_POD_NAME'' = None
   \<and> Log Warn (Text K8S_POD_NAME_WARNING) \<in> set (trace (snd (startup worldPodlessExporterFails)))
   \<and> exitCodes (trace (snd (startup worldPodlessExporterFails))) = [1]"
proof -
  have "Log Warn (Text K8S_POD_NAME_WARNING) \<notin> set (trace (snd (startup worldEmptyHostOnly)))"
    by (simp add: startup_def moduleLoad_def initMetrics_enter_def runToCompletion_def
        continue_def afterDetection_def afterMerged_def checkKubernetes_def
        checkCloudFunctions_def settlePromise_def onFulfilled_def registerHandler_def
        logger_def emit_def setAttribute_def truthy_def Let_def worldEmptyHostOnly_def
        quietWorld_def initialState_def K8S_POD_NAME_WARNING_def DEFAULT_BEHAVIOR_WARNING_def)
  moreover
  have "resolvedIdentity worldGkeNoPodName SEMRESATTRS_K8S_POD_NAME = Some (StrV ''detected-pod'')"
    "resolvedIdentity worldGkeEmptyPodName SEMRESATTRS_K8S_POD_NAME = None"
    "resolvedIdentity worldGkeEmptyHost SEMRESATTRS_K8S_POD_NAME = None"
    unfolding worldGkeNoPodName_def worldGkeEmptyPodName_def worldGkeEmptyHost_def
    by (simp_all add: quiet_resolved explicit_pod_name truthy_def)
  moreover have t: "truthy (env worldPodlessExporterFails ''KUBERNETES_SERVICE_HOST'')"
    "\<not> truthy (env worldPodlessExporterFails ''K8S_POD_NAME'')"
    by (simp_all add: worldPodlessExporterFails_def worldPodless_def truthy_def)
  moreover have "collaborators worldPodlessExporterFails = Raises (Thrown ''no credentials'')"
    by (simp add: worldPodlessExporterFails_def worldPodless_def collaborators_def
        bootstrapCalls_def)
  then have "exitCodes (trace (snd (startup worldPodlessExporterFails))) = [1]"
    by (simp add: exit_iff_raised)
  moreover have "Log Warn (Text K8S_POD_NAME_WARNING)
      \<in> set (trace (snd (startup worldPodlessExporterFails)))"
    using checkKubernetes_warns [OF t] k8s_trace_kept [of worldPodlessExporterFails] by blast
  ultimately show ?thesis
    by (simp add: worldGkeNoPodName_def worldGkeEmptyPodName_def worldGkeEmptyHost_def
        worldEmptyHostOnly_def worldPodlessExporterFails_def worldPodless_def truthy_def)
qed

text \<open>
  Claim C9. After a run in which \<^verbatim>\<open>initMetrics\<close> returned, take any sequence of timer
  ticks and requests, in any order (any interleaving of the two writers). No callback
  throws, each tick adds exactly 1 to the background counter and each request exactly 1 to
  the request counter, so the counters hold as many additions of 1 as there were ticks and
  requests, and every request is answered \<^verbatim>\<open>OK\<close>.
\<close>

theorem ticks_and_requests_counted:
  assumes "fst (startup w) = Fulfilled"
  shows "fst (runAll acts (snd (startup w))) = replicate (length acts) None
    \<and> counters (snd (runAll acts (snd (startup w)))) BACKGROUND_COUNTER
        = Some (replicate (count_list acts Tick) 1)
    \<and> counters (snd (runAll acts (snd (startup w)))) REQUEST_COUNTER
        = Some (replicate (count_list acts Request) 1)
    \<and> sent (trace (snd (runAll acts (snd (startup w)))))
        = replicate (count_list acts Request) ''OK''"
proof -
  note st = fulfilled_state [OF assms]
  have "counters (snd (startup w)) BACKGROUND_COUNTER = Some []"
    "counters (snd (startup w)) REQUEST_COUNTER = Some []"
    using st(3) counter_names_differ by simp_all
  from runAll_counts [OF st(1,2) counter_names_differ this, of acts]
  show ?thesis by (simp add: nothing_sent_at_startup)
qed

text \<open>Three ticks and two requests, interleaved, after a run in which every call returns.\<close>

theorem ticks_and_requests_counted_witness:
  "fst (startup worldPlain) = Fulfilled
   \<and> counters (snd (runAll [Tick, Request, Tick, Tick, Request] (snd (startup worldPlain))))
        BACKGROUND_COUNTER = Some [1, 1, 1]
   \<and> counters (snd (runAll [Tick, Request, Tick, Tick, Request] (snd (startup worldPlain))))
        REQUEST_COUNTER = Some [1, 1]
   \<and> sent (trace (snd (runAll [Tick, Request, Tick, Tick, Request] (snd (startup worldPlain)))))
        = [''OK'', ''OK'']"
  using worldPlain_fulfilled
    ticks_and_requests_counted [OF worldPlain_fulfilled, of "[Tick, Request, Tick, Tick, Request]"]
  by (simp add: numeral_3_eq_3 numeral_2_eq_2)

text \<open>
  Claim C8, as the code has it. Whenever a call the run makes raises an exception \<open>e\<close>
  (the detector throws, the await of its attributes rejects, the merge throws, the await
  of the merged resource rejects, or the construction of the exporter, the reader, the
  provider, the meter or a counter throws), the promise of \<^verbatim>\<open>initMetrics\<close> is rejected
  with \<open>e\<close>, the run ends by logging \<open>e\<close> at error severity and exiting with status 1,
  and this is its only exit. The background counter is never created. The request counter
  is not created either, unless the exception is the one raised by the registration of
  the background counter, which comes after the request counter has been registered.
\<close>

theorem fatal_on_exception:
  assumes "collaborators w = Raises e"
  shows "fst (startup w) = Rejected e
    \<and> drop (length (trace (snd (startup w))) - 2) (trace (snd (startup w)))
        = [Log Err (Caught e), Exit 1]
    \<and> exitCodes (trace (snd (startup w))) = [1]
    \<and> backgroundCounter (snd (startup w)) = None
    \<and> (counters (snd (startup w)) = Map.empty \<and> requestCounter (snd (startup w)) = None
       \<or> counters (snd (startup w)) = [REQUEST_COUNTER \<mapsto> []]
         \<and> requestCounter (snd (startup w)) = Some REQUEST_COUNTER
         \<and> createCounter w REQUEST_COUNTER = None
         \<and> createCounter w BACKGROUND_COUNTER = Some e)"
proof -
  have rej: "fst (startup w) = Rejected e"
    using assms by (rule raised_rejected)
  obtain k pre res boot where
    tr: "trace (snd (startup w)) =
       Log Debug (Text ''initializing metrics'') # EnvRead ''KUBERNETES_SERVICE_HOST'' # k
       @ pre @ [RegisterHttp ''handleHttpReq'', Log Info (Text ''HTTP handler ready.'')]
       @ res @ boot @ finalEvents (fst (startup w))"
    by (rule trace_shape [of w])
  have "drop (length (trace (snd (startup w))) - 2) (trace (snd (startup w)))
        = [Log Err (Caught e), Exit 1]"
    unfolding tr using rej by simp
  moreover have "exitCodes (trace (snd (startup w))) = [1]"
    using rej by (simp add: exit_iff_rejected)
  ultimately show ?thesis
    using rejected_state [OF rej] rej by simp
qed

text \<open>
  One run for each call that can raise, the calls before it returning: the detector, the
  await of its attributes, the merge, the await of the merged resource, the exporter, the
  reader, the provider, the meter, the request counter and the background counter. In
  each the exception rejects the promise and the process exits once, with status 1, and
  no background counter exists; in all but the last no counter exists at all.
\<close>

theorem fatal_on_exception_witness:
  "(collaborators worldDetectThrows = Raises (Thrown ''detect failed'')
    \<and> fst (startup worldDetectThrows) = Rejected (Thrown ''detect failed'')
    \<and> exitCodes (trace (snd (startup worldDetectThrows))) = [1]
    \<and> backgroundCounter (snd (startup worldDetectThrows)) = None
    \<and> requestCounter (snd (startup worldDetectThrows)) = None
    \<and> counters (snd (startup worldDetectThrows)) = Map.empty)
   \<and> (collaborators worldDetectorRejects = Raises (Thrown ''metadata unavailable'')
    \<and> fst (startup worldDetectorRejects) = Rejected (Thrown ''metadata unavailable'')
    \<and> exitCodes (trace (snd (startup worldDetectorRejects))) = [1]
    \<and> backgroundCounter (snd (startup worldDetectorRejects)) = None
    \<and> requestCounter (snd (startup worldDetectorRejects)) = None
    \<and> counters (snd (startup worldDetectorRejects)) = Map.empty)
   \<and> (collaborators worldMergeThrows = Raises (Thrown ''merge failed'')
    \<and> fst (startup worldMergeThrows) = Rejected (Thrown ''merge failed'')
    \<and> exitCodes (trace (snd (startup worldMergeThrows))) = [1]
    \<and> backgroundCounter (snd (startup worldMergeThrows)) = None
    \<and> requestCounter (snd (startup worldMergeThrows)) = None
    \<and> counters (snd (startup worldMergeThrows)) = Map.empty)
   \<and> (collaborators worldMergedRejects = Raises (Thrown ''attributes unavailable'')
    \<and> fst (startup worldMergedRejects) = Rejected (Thrown ''attributes unavailable'')
    \<and> exitCodes (trace (snd (startup worldMergedRejects))) = [1]
    \<and> backgroundCounter (snd (startup worldMergedRejects)) = None
    \<and> requestCounter (snd (startup worldMergedRejects)) = None
    \<and> counters (snd (startup worldMergedRejects)) = Map.empty)
   \<and> (collaborators worldExporterFails = Raises (Thrown ''no credentials'')
    \<and> fst (startup worldExporterFails) = Rejected (Thrown ''no credentials'')
    \<and> exitCodes (trace (snd (startup worldExporterFails))) = [1]
    \<and> backgroundCounter (snd (startup worldExporterFails)) = None
    \<and> requestCounter (snd (startup worldExporterFails)) = None
    \<and> counters (snd (startup worldExporterFails)) = Map.empty)
   \<and> (collaborators worldReaderFails = Raises (Thrown ''bad interval'')
    \<and> fst (startup worldReaderFails) = Rejected (Thrown ''bad interval'')
    \<and> exitCodes (trace (snd (startup worldReaderFails))) = [1]
    \<and> backgroundCounter (snd (startup worldReaderFails)) = None
    \<and> requestCounter (snd (startup worldReaderFails)) = None
    \<and> counters (snd (startup worldReaderFails)) = Map.empty)
   \<and> (collaborators worldProviderFails = Raises (Thrown ''bad resource'')
    \<and> fst (startup worldProviderFails) = Rejected (Thrown ''bad resource'')
    \<and> exitCodes (trace (snd (startup worldProviderFails))) = [1]
    \<and> backgroundCounter (snd (startup worldProviderFails)) = None
    \<and> requestCounter (snd (startup worldProviderFails)) = None
    \<and> counters (snd (startup worldProviderFails)) = Map.empty)
   \<and> (collaborators worldMeterFails = Raises (Thrown ''no meter'')
    \<and> fst (startup worldMeterFails) = Rejected (Thrown ''no meter'')
    \<and> exitCodes (trace (snd (startup worldMeterFails))) = [1]
    \<and> backgroundCounter (snd (startup worldMeterFails)) = None
    \<and> requestCounter (snd (startup worldMeterFails)) = None
    \<and> counters (snd (startup worldMeterFails)) = Map.empty)
   \<and> (collaborators worldFirstCounterFails = Raises (Thrown ''createCounter failed'')
    \<and> fst (startup worldFirstCounterFails) = Rejected (Thrown ''createCounter failed'')
    \<and> exitCodes (trace (snd (startup worldFirstCounterFails))) = [1]
    \<and> backgroundCounter (snd (startup worldFirstCounterFails)) = None
    \<and> requestCounter (snd (startup worldFirstCounterFails)) = None
    \<and> counters (snd (startup worldFirstCounterFails)) = Map.empty)
   \<and> (collaborators worldSecondCounterFails = Raises (Thrown ''createCounter failed'')
    \<and> fst (startup worldSecondCounterFails) = Rejected (Thrown ''createCounter failed'')
    \<and> exitCodes (trace (snd (startup worldSecondCounterFails))) = [1]
    \<and> backgroundCounter (snd (startup worldSecondCounterFails)) = None)"
proof -
  have site: "fst (startup w) = Rejected e
      \<and> exitCodes (trace (snd (startup w))) = [1]
      \<and> backgroundCounter (snd (startup w)) = None
      \<and> requestCounter (snd (startup w)) = None
      \<and> counters (snd (startup w)) = Map.empty"
    if "collaborators w = Raises e" "createCounter w BACKGROUND_COUNTER = None" for w e
    using fatal_on_exception [OF that(1)] that(2) by auto
  have later: "fst (startup w) = Rejected e
      \<and> exitCodes (trace (snd (startup w))) = [1]
      \<and> backgroundCounter (snd (startup w)) = None"
    if "collaborators w = Raises e" for w e
    using fatal_on_exception [OF that] by simp
  have c1: "collaborators worldDetectThrows = Raises (Thrown ''detect failed'')"
    "createCounter worldDetectThrows BACKGROUND_COUNTER = None"
    using counter_names_differ
    by (auto simp: worldDetectThrows_def collaborators_def bootstrapCalls_def)
  have c2: "collaborators worldDetectorRejects = Raises (Thrown ''metadata unavailable'')"
    "createCounter worldDetectorRejects BACKGROUND_COUNTER = None"
    using counter_names_differ
    by (auto simp: worldDetectorRejects_def collaborators_def bootstrapCalls_def)
  have c3: "collaborators worldMergeThrows = Raises (Thrown ''merge failed'')"
    "createCounter worldMergeThrows BACKGROUND_COUNTER = None"
    using counter_names_differ
    by (auto simp: worldMergeThrows_def collaborators_def bootstrapCalls_def)
  have c4: "collaborators worldMergedRejects = Raises (Thrown ''attributes unavailable'')"
    "createCounter worldMergedRejects BACKGROUND_COUNTER = None"
    using counter_names_differ
    by (auto simp: worldMergedRejects_def collaborators_def bootstrapCalls_def)
  have c5: "collaborators worldExporterFails = Raises (Thrown ''no credentials'')"
    "createCounter worldExporterFails BACKGROUND_COUNTER = None"
    using counter_names_differ
    by (auto simp: worldExporterFails_def collaborators_def bootstrapCalls_def)
  have c6: "collaborators worldReaderFails = Raises (Thrown ''bad interval'')"
    "createCounter worldReaderFails BACKGROUND_COUNTER = None"
    using counter_names_differ
    by (auto simp: worldReaderFails_def collaborators_def bootstrapCalls_def)
  have c7: "collaborators worldProviderFails = Raises (Thrown ''bad resource'')"
    "createCounter worldProviderFails BACKGROUND_COUNTER = None"
    using counter_names_differ
    by (auto simp: worldProviderFails_def collaborators_def bootstrapCalls_def)
  have c8: "collaborators worldMeterFails = Raises (Thrown ''no meter'')"
    "createCounter worldMeterFails BACKGROUND_COUNTER = None"
    using counter_names_differ
    by (auto simp: worldMeterFails_def collaborators_def bootstrapCalls_def)
  have c9: "collaborators worldFirstCounterFails = Raises (Thrown ''createCounter failed'')"
    "createCounter worldFirstCounterFails BACKGROUND_COUNTER = None"
    using counter_names_differ
    by (auto simp: worldFirstCounterFails_def collaborators_def bootstrapCalls_def)
  have c10: "collaborators worldSecondCounterFails = Raises (Thrown ''createCounter failed'')"
    using counter_names_differ
    by (auto simp: worldSecondCounterFails_def collaborators_def bootstrapCalls_def)
  show ?thesis
    using c1(1) site [OF c1] c2(1) site [OF c2] c3(1) site [OF c3] c4(1) site [OF c4] c5(1) site [OF c5] c6(1) site [OF c6] c7(1) site [OF c7] c8(1) site [OF c8] c9(1) site [OF c9]
      c10 later [OF c10]
    by simp
qed

text \<open>
  Claim C8 as stated fails: when the registration of the background counter throws, the
  run is fatal and yet the request counter has been created.
\<close>

theorem no_counter_created_counterexample:
  "fst (startup worldSecondCounterFails) = Rejected (Thrown ''createCounter failed'')
   \<and> requestCounter (snd (startup worldSecondCounterFails)) = Some REQUEST_COUNTER
   \<and> counters (snd (startup worldSecondCounterFails)) REQUEST_COUNTER = Some []"
proof -
  let ?w = worldSecondCounterFails
  obtain r st where run: "startup ?w = settlePromise (afterMerged ?w r st)"
    and st: "counters st = Map.empty" "requestCounter st = None" "backgroundCounter st = None"
    by (rule bootstrap_reached [of ?w]) (simp_all add: worldSecondCounterFails_def)
  have c: "createCounter ?w REQUEST_COUNTER = None"
    "createCounter ?w BACKGROUND_COUNTER = Some (Thrown ''createCounter failed'')"
    using counter_names_differ by (simp_all add: worldSecondCounterFails_def)
  have w: "newExporter ?w = None" "newReader ?w = None" "newMeterProvider ?w = None"
    "getMeter ?w = None"
    by (simp_all add: worldSecondCounterFails_def)
  show ?thesis
    unfolding run using c w st
    by (simp add: afterMerged_def settlePromise_def Let_def)
qed

text \<open>
  Claim C10. Loading the module registers the HTTP handler whatever the environment and
  the collaborators do, at a point where \<^verbatim>\<open>initMetrics\<close> has not returned and the
  request counter is still undefined; in every run the registration precedes the settling
  of the merged resource, every step of the bootstrap and the exit. A request handled in
  any state whose request counter is undefined throws a TypeError at \<^verbatim>\<open>add\<close>: nothing
  is added to any counter, nothing is queued, and no response is sent.
\<close>

theorem handler_registered_before_bootstrap:
  assumes "requestCounter st = None"
  shows "RegisterHttp ''handleHttpReq'' \<in> set (trace (snd (moduleLoad w)))
    \<and> fst (moduleLoad w) \<noteq> Fulfilled
    \<and> requestCounter (snd (moduleLoad w)) = None
    \<and> precededBy isRegistration isCompletion (trace (snd (startup w)))
    \<and> fst (handleHttpReq st)
        = Some (TypeError ''Cannot read properties of undefined (reading add)'')
    \<and> counters (snd (handleHttpReq st)) = counters st
    \<and> trace (snd (handleHttpReq st)) = trace st @ [Log Info (Text ''handling HTTP request'')]"
proof -
  obtain k pre res boot where
    tr: "trace (snd (startup w)) =
       Log Debug (Text ''initializing metrics'') # EnvRead ''KUBERNETES_SERVICE_HOST'' # k
       @ pre @ [RegisterHttp ''handleHttpReq'', Log Info (Text ''HTTP handler ready.'')]
       @ res @ boot @ finalEvents (fst (startup w))"
    and cls: "list_all emitsK8s k" "list_all emitsResolve pre"
    by (rule trace_shape [of w])
  have quiet: "list_all (\<lambda>e. \<not> isCompletion e) (k @ pre)"
    using cls by (auto simp: list_all_iff dest: k8s_not_completion resolve_not_completion)
  have "precededBy isRegistration isCompletion
      ((k @ pre) @ RegisterHttp ''handleHttpReq'' # Log Info (Text ''HTTP handler ready.'')
         # res @ boot @ finalEvents (fst (startup w)))"
    using quiet by (rule precededBy_append) simp
  then have order: "precededBy isRegistration isCompletion (trace (snd (startup w)))"
    unfolding tr by simp
  have "fst (handleHttpReq st)
        = Some (TypeError ''Cannot read properties of undefined (reading add)'')
    \<and> counters (snd (handleHttpReq st)) = counters st
    \<and> trace (snd (handleHttpReq st)) = trace st @ [Log Info (Text ''handling HTTP request'')]"
    using assms by (simp add: handleHttpReq_def)
  with order show ?thesis
    by (simp add: moduleLoad_state)
qed

text \<open>A request that arrives right after the module has loaded.\<close>

theorem handler_registered_before_bootstrap_witness:
  "requestCounter (snd (moduleLoad worldPlain)) = None
   \<and> RegisterHttp ''handleHttpReq'' \<in> set (trace (snd (moduleLoad worldPlain)))
   \<and> fst (handleHttpReq (snd (moduleLoad worldPlain)))
        = Some (TypeError ''Cannot read properties of undefined (reading add)'')
   \<and> counters (snd (handleHttpReq (snd (moduleLoad worldPlain)))) = Map.empty"
  using handler_registered_before_bootstrap
    [OF moduleLoad_state(1) [of worldPlain], of worldPlain]
  by (simp add: moduleLoad_state)

end
